theory Spec2Isabelle
  imports Complex_Main
begin

section \<open>Values\<close>

text \<open>
  The repository is TypeScript/JavaScript on top of the GTK bindings. JavaScript numbers
  are modelled as reals (no NaN, no infinities: the code only compares them with zero and
  copies them), strings as HOL strings (bytes; only ASCII matters for the enum tokens).
\<close>

datatype gdk_event_type = BUTTON_PRESS | BUTTON_RELEASE | OTHER_EVENT

text \<open>What the toolkit passes to a signal handler after the emitting object itself.\<close>

datatype sigarg = ANum real | AEvent gdk_event_type real

text \<open>Primitive values: what a user callback returns, and the opaque user data of
  \<^verbatim>\<open>properties\<close>.\<close>

datatype prim = PUndefined | PBoolean bool | PNumber real | PString string

text \<open>
  A user function is known by a name and by what it returns for the arguments it gets.
  The engine always passes the widget first; that argument is left out of \<open>sigarg list\<close>.
\<close>

record callback =
  cb_name :: string
  cb_ret :: "sigarg list \<Rightarrow> prim"

text \<open>One call of a user function: its name and its arguments (the widget left out).\<close>

type_synonym call = "string \<times> sigarg list"

text \<open>A handler the engine connects to a signal: the user calls it makes and the boolean
  it returns to the controller.\<close>

type_synonym handler = "sigarg list \<Rightarrow> call list \<times> bool"

text \<open>The source of a connection triple: a signal name, a number (an interval) or a
  service (known by a name).\<close>

datatype conn_source = Signal string | Every real | Service string

text \<open>The TypeScript interface \<^verbatim>\<open>EventListeners\<close>.\<close>

record listeners =
  onFocusEnter :: "callback option"
  onFocusLeave :: "callback option"
  onKeyPressed :: "callback option"
  onKeyReleased :: "callback option"
  onMotion :: "callback option"
  onHoverEnter :: "callback option"
  onHoverLeave :: "callback option"
  onScroll :: "callback option"
  onScrollUp :: "callback option"
  onScrollDown :: "callback option"
  onButtonPressed :: "callback option"
  onButtonReleased :: "callback option"

text \<open>The TypeScript interface \<^verbatim>\<open>WidgetProps\<close> without its \<^verbatim>\<open>type\<close> field; an absent
  (undefined) field is \<open>None\<close>.\<close>

record wprops =
  className :: "string option"
  style :: "string option"
  halign :: "string option"
  valign :: "string option"
  hexpand :: "bool option"
  vexpand :: "bool option"
  sensitive :: "bool option"
  tooltip :: "string option"
  visible :: "bool option"
  connections :: "(conn_source \<times> callback \<times> string option) list option"
  properties :: "(string \<times> prim) list option"
  setup_cb :: "callback option"

text \<open>The \<^verbatim>\<open>type\<close> field of a descriptor: absent, a registry key or a factory. A factory
  (a function of no argument returning a widget) is known by a name and by the widget it
  returns.\<close>

datatype 'n tfield = TMissing | TString string | TFactory string 'n

text \<open>
  JavaScript values. An object literal is \<open>JObj\<close>: its \<^verbatim>\<open>type\<close> field, the fields the
  engine destructures (typed as the interfaces declare them) and every other key in
  order. \<open>JEnum\<close> is a member of one of the toolkit's enumerations: the enumeration, the
  key, and the number the member is (to JavaScript it is that number). \<open>JClosure\<close> is a
  function the engine makes and whose body no property here looks into, known by a label.
  A native object (a widget, a window, a controller) is what it was constructed with and
  the calls and property assignments made on it since, in order.
  Values are trees: two occurrences of an object in a descriptor are two objects.
\<close>

datatype jsval =
    JUndef
  | JNull
  | JBool bool
  | JNum real
  | JStr string
  | JEnum string string nat
  | JFun callback
  | JFactory string native
  | JHandler handler
  | JClosure string
  | JArr "jsval list"
  | JObj "native tfield" wprops listeners "(string \<times> jsval) list"
  | JNative native
and native =
    Native (kind: string) (init: "(string \<times> jsval) list") (calls: "(string \<times> jsval list) list")

type_synonym bag = "(string \<times> jsval) list"

definition new :: "string \<Rightarrow> (string \<times> jsval) list \<Rightarrow> native" where
  "new k props = Native k props []"

text \<open>A method call on a native object.\<close>

definition invoke :: "string \<Rightarrow> jsval list \<Rightarrow> native \<Rightarrow> native" where
  "invoke m args w = Native (kind w) (init w) (calls w @ [(m, args)])"

text \<open>A property assignment \<^verbatim>\<open>w.f = v\<close> on a native object.\<close>

definition assign :: "string \<Rightarrow> jsval \<Rightarrow> native \<Rightarrow> native" where
  "assign f v w = invoke (f @ ''='') [v] w"

section \<open>The event multiplexer\<close>

text \<open>\<^verbatim>\<open>Gtk.EventControllerScrollFlags.BOTH_AXES\<close>, which the code names itself: vertical (1)
  and horizontal (2) together.\<close>

definition BOTH_AXES :: jsval where
  "BOTH_AXES = JEnum ''EventControllerScrollFlags'' ''BOTH_AXES'' 3"

definition handleEvent :: "callback \<Rightarrow> sigarg list \<Rightarrow> call list \<times> bool" where
  "handleEvent cb args =
     (let r = cb_ret cb args
      in ([(cb_name cb, args)], (case r of PBoolean b \<Rightarrow> b | _ \<Rightarrow> True)))"

text \<open>The closures of \<^verbatim>\<open>parseEventListeners\<close>, one per slot. A comparison of
  \<^verbatim>\<open>undefined\<close> with zero is false in JavaScript.\<close>

definition plain_handler :: "callback \<Rightarrow> handler" where
  "plain_handler cb = (\<lambda>args. handleEvent cb args)"

definition no_args_handler :: "callback \<Rightarrow> handler" where
  "no_args_handler cb = (\<lambda>args. handleEvent cb [])"

definition scrollUp_handler :: "callback \<Rightarrow> handler" where
  "scrollUp_handler cb = (\<lambda>args.
     (case args of
        [ANum dx, ANum dy] \<Rightarrow>
          if dy < 0 \<or> dx < 0 then handleEvent cb [ANum dx, ANum dy] else ([], False)
      | _ \<Rightarrow> ([], False)))"

definition scrollDown_handler :: "callback \<Rightarrow> handler" where
  "scrollDown_handler cb = (\<lambda>args.
     (case args of
        [ANum dx, ANum dy] \<Rightarrow>
          if dy > 0 \<or> dx > 0 then handleEvent cb [ANum dx, ANum dy] else ([], False)
      | _ \<Rightarrow> ([], False)))"

definition button_handler :: "gdk_event_type \<Rightarrow> callback \<Rightarrow> handler" where
  "button_handler phase cb = (\<lambda>args.
     (case args of
        [AEvent t b] \<Rightarrow> if t = phase then handleEvent cb [ANum b] else ([], False)
      | _ \<Rightarrow> ([], False)))"

text \<open>\<^verbatim>\<open>if (cb) controller.connect(signal, handler)\<close>.\<close>

definition connect_if :: "callback option \<Rightarrow> string \<Rightarrow> (callback \<Rightarrow> handler) \<Rightarrow> native \<Rightarrow> native" where
  "connect_if slot signal h controller =
     (case slot of
        None \<Rightarrow> controller
      | Some cb \<Rightarrow> invoke ''connect'' [JStr signal, JHandler (h cb)] controller)"

text \<open>
  The source attaches the new controller first and connects its signals afterwards; the
  controller is one shared object, so the widget holds the controller with all its
  connections.
\<close>

definition parseEventListeners :: "native \<Rightarrow> listeners \<Rightarrow> native" where
  "parseEventListeners widget0 l =
     (let widget1 =
        (if onFocusLeave l \<noteq> None \<or> onFocusEnter l \<noteq> None then
           (let controller = new ''Gtk.EventControllerFocus'' [];
                controller = connect_if (onFocusEnter l) ''enter'' no_args_handler controller;
                controller = connect_if (onFocusLeave l) ''leave'' no_args_handler controller
            in invoke ''add_controller'' [JNative controller] widget0)
         else widget0);
      widget2 =
        (if onKeyReleased l \<noteq> None \<or> onKeyPressed l \<noteq> None then
           (let controller = new ''Gtk.EventControllerKey'' [];
                controller = connect_if (onKeyPressed l) ''key-pressed'' plain_handler controller;
                controller = connect_if (onKeyReleased l) ''key-released'' plain_handler controller
            in invoke ''add_controller'' [JNative controller] widget1)
         else widget1);
      widget3 =
        (if onMotion l \<noteq> None \<or> onHoverLeave l \<noteq> None \<or> onHoverEnter l \<noteq> None then
           (let controller = new ''Gtk.EventControllerMotion'' [];
                controller = connect_if (onMotion l) ''motion'' plain_handler controller;
                controller = connect_if (onHoverLeave l) ''leave'' no_args_handler controller;
                controller = connect_if (onHoverEnter l) ''enter'' plain_handler controller
            in invoke ''add_controller'' [JNative controller] widget2)
         else widget2);
      widget4 =
        (if onScroll l \<noteq> None \<or> onScrollUp l \<noteq> None \<or> onScrollDown l \<noteq> None then
           (let controller = new ''Gtk.EventControllerScroll'' [];
                controller = invoke ''set_flags'' [BOTH_AXES] controller;
                controller = connect_if (onScroll l) ''scroll'' plain_handler controller;
                controller = connect_if (onScrollUp l) ''scroll'' scrollUp_handler controller;
                controller = connect_if (onScrollDown l) ''scroll'' scrollDown_handler controller
            in invoke ''add_controller'' [JNative controller] widget3)
         else widget3);
      widget5 =
        (if onButtonPressed l \<noteq> None \<or> onButtonReleased l \<noteq> None then
           (let controller = new ''Gtk.EventControllerLegacy'' [];
                controller = connect_if (onButtonPressed l) ''event'' (button_handler BUTTON_PRESS) controller;
                controller = connect_if (onButtonReleased l) ''event'' (button_handler BUTTON_RELEASE) controller
            in invoke ''add_controller'' [JNative controller] widget4)
         else widget4)
      in widget5)"

text \<open>Observers of a live object: the controllers attached to it, and the handlers
  connected to a signal on its controllers of one kind, in order.\<close>

definition controllers :: "native \<Rightarrow> native list" where
  "controllers w =
     concat (map (\<lambda>(m, args). (case args of
                [JNative c] \<Rightarrow> (if m = ''add_controller'' then [c] else [])
              | _ \<Rightarrow> [])) (calls w))"

definition handlers_of :: "string \<Rightarrow> native \<Rightarrow> handler list" where
  "handlers_of signal c =
     concat (map (\<lambda>(m, args). (case args of
                [JStr s, JHandler h] \<Rightarrow> (if m = ''connect'' \<and> s = signal then [h] else [])
              | _ \<Rightarrow> [])) (calls c))"

text \<open>
  The toolkit's side of a signal, which is not in the sources. The signals \<^verbatim>\<open>scroll\<close>,
  \<^verbatim>\<open>key-pressed\<close> and \<^verbatim>\<open>event\<close> have a boolean result: the toolkit runs the handlers
  connected to the signal in connection order and stops at the first one that returns
  \<^verbatim>\<open>true\<close>, which says that the event is handled (\<^verbatim>\<open>GDK_EVENT_STOP\<close>); \<^verbatim>\<open>false\<close>
  (\<^verbatim>\<open>GDK_EVENT_PROPAGATE\<close>) lets the next handler run. The other signals the multiplexer
  connects to (\<^verbatim>\<open>enter\<close>, \<^verbatim>\<open>leave\<close>, \<^verbatim>\<open>motion\<close>, \<^verbatim>\<open>key-released\<close>) have no result: every
  handler runs and what it returns is dropped. The closures of the multiplexer are written
  to this convention: a directional scroll handler and a button handler return \<^verbatim>\<open>false\<close>
  for an event that is not theirs, which hands the event to the next handler.
\<close>

definition has_result :: "string \<Rightarrow> bool" where
  "has_result signal = (signal \<in> set [''scroll'', ''key-pressed'', ''event''])"

text \<open>The user calls made when the handlers run in order; with \<open>stop\<close> the run ends after the
  first handler that returns \<^verbatim>\<open>true\<close>.\<close>

fun run_handlers :: "bool \<Rightarrow> handler list \<Rightarrow> sigarg list \<Rightarrow> call list" where
  "run_handlers stop [] args = []"
| "run_handlers stop (h # hs) args =
     (case h args of (cs, r) \<Rightarrow> if stop \<and> r then cs else cs @ run_handlers stop hs args)"

text \<open>One emission of a signal on a controller.\<close>

definition emit :: "string \<Rightarrow> native \<Rightarrow> sigarg list \<Rightarrow> call list" where
  "emit signal c args = run_handlers (has_result signal) (handlers_of signal c) args"

text \<open>The closures the multiplexer makes over a callback, and the callbacks in the slots
  of a descriptor.\<close>

definition closures :: "callback \<Rightarrow> handler set" where
  "closures cb = {plain_handler cb, no_args_handler cb, scrollUp_handler cb, scrollDown_handler cb,
     button_handler BUTTON_PRESS cb, button_handler BUTTON_RELEASE cb}"

definition callbacks_of :: "listeners \<Rightarrow> callback list" where
  "callbacks_of l =
     concat (map (\<lambda>slot. case slot of None \<Rightarrow> [] | Some cb \<Rightarrow> [cb])
       [onFocusEnter l, onFocusLeave l, onKeyPressed l, onKeyReleased l,
        onMotion l, onHoverEnter l, onHoverLeave l, onScroll l, onScrollUp l, onScrollDown l,
        onButtonPressed l, onButtonReleased l])"

text \<open>The user calls each scroll handler of a live object makes when it runs on the
  deltas \<open>(dx, dy)\<close>, handler by handler in connection order. Which of them one
  emission runs is what \<open>emit\<close> says.\<close>

definition scroll_calls :: "native \<Rightarrow> real \<Rightarrow> real \<Rightarrow> call list list" where
  "scroll_calls w dx dy =
     map (\<lambda>h. fst (h [ANum dx, ANum dy])) (concat (map (handlers_of ''scroll'') (controllers w)))"

text \<open>The controller families and their slots, as the specification lists them; a family
  is named by the class of its controller.\<close>

definition populated :: "string \<Rightarrow> listeners \<Rightarrow> bool" where
  "populated k l =
     (if k = ''Gtk.EventControllerFocus'' then onFocusEnter l \<noteq> None \<or> onFocusLeave l \<noteq> None
      else if k = ''Gtk.EventControllerKey'' then onKeyPressed l \<noteq> None \<or> onKeyReleased l \<noteq> None
      else if k = ''Gtk.EventControllerMotion'' then
        onMotion l \<noteq> None \<or> onHoverEnter l \<noteq> None \<or> onHoverLeave l \<noteq> None
      else if k = ''Gtk.EventControllerScroll'' then
        onScroll l \<noteq> None \<or> onScrollUp l \<noteq> None \<or> onScrollDown l \<noteq> None
      else if k = ''Gtk.EventControllerLegacy'' then
        onButtonPressed l \<noteq> None \<or> onButtonReleased l \<noteq> None
      else False)"

section \<open>JavaScript operations the code relies on\<close>

text \<open>Truthiness: \<^verbatim>\<open>undefined\<close>, \<^verbatim>\<open>null\<close>, \<^verbatim>\<open>false\<close>, \<open>0\<close> and the empty string are falsy. A
  member of an enumeration is the number it stands for.\<close>

definition truthy :: "jsval \<Rightarrow> bool" where
  "truthy v =
     (case v of
        JUndef \<Rightarrow> False
      | JNull \<Rightarrow> False
      | JBool b \<Rightarrow> b
      | JNum n \<Rightarrow> n \<noteq> 0
      | JStr s \<Rightarrow> s \<noteq> []
      | JEnum _ _ n \<Rightarrow> n \<noteq> 0
      | _ \<Rightarrow> True)"

text \<open>The kind of a value, as \<^verbatim>\<open>typeof\<close> gives it, with arrays told apart.\<close>

definition kind_of :: "jsval \<Rightarrow> string" where
  "kind_of v =
     (case v of
        JUndef \<Rightarrow> ''undefined''
      | JNull \<Rightarrow> ''object''
      | JBool _ \<Rightarrow> ''boolean''
      | JNum _ \<Rightarrow> ''number''
      | JStr _ \<Rightarrow> ''string''
      | JEnum _ _ _ \<Rightarrow> ''number''
      | JFun _ \<Rightarrow> ''function''
      | JFactory _ _ \<Rightarrow> ''function''
      | JHandler _ \<Rightarrow> ''function''
      | JClosure _ \<Rightarrow> ''function''
      | JArr _ \<Rightarrow> ''array''
      | JObj _ _ _ _ \<Rightarrow> ''object''
      | JNative _ \<Rightarrow> ''object'')"

text \<open>Reading a key of an object: \<^verbatim>\<open>undefined\<close> when the key is absent.\<close>

definition get :: "bag \<Rightarrow> string \<Rightarrow> jsval" where
  "get b k = (case map_of b k of None \<Rightarrow> JUndef | Some v \<Rightarrow> v)"

text \<open>A destructuring default \<^verbatim>\<open>{k = d}\<close>: it stands in for \<^verbatim>\<open>undefined\<close> only.\<close>

definition dflt :: "jsval \<Rightarrow> jsval \<Rightarrow> jsval" where
  "dflt d v = (if v = JUndef then d else v)"

text \<open>The rest of a destructuring: the keys not named.\<close>

definition rest_of :: "string list \<Rightarrow> bag \<Rightarrow> bag" where
  "rest_of ks b = filter (\<lambda>(k, v). k \<notin> set ks) b"

text \<open>Writing a nested value back where it stands (the key's first entry): a nested
  object is shared between a copy of an object and the object, so what a callee does to
  it shows in the caller's. An absent key stays absent.\<close>

fun put :: "string \<Rightarrow> jsval \<Rightarrow> bag \<Rightarrow> bag" where
  "put k v [] = []"
| "put k v ((k', v') # b) = (if k' = k then (k', v) # b else (k', v') # put k v b)"

text \<open>\<^verbatim>\<open>delete o.k\<close>.\<close>

definition delete_key :: "string \<Rightarrow> jsval \<Rightarrow> jsval" where
  "delete_key k v =
     (case v of
        JObj t wp ls b \<Rightarrow> JObj t wp ls (filter (\<lambda>(k', v'). k' \<noteq> k) b)
      | _ \<Rightarrow> v)"

text \<open>Reading a key of any value that is not \<^verbatim>\<open>null\<close> or \<^verbatim>\<open>undefined\<close>; only object
  literals have the keys read this way.\<close>

definition member :: "jsval \<Rightarrow> string \<Rightarrow> jsval" where
  "member v k = (case v of JObj t wp ls b \<Rightarrow> get b k | _ \<Rightarrow> JUndef)"

text \<open>\<^verbatim>\<open>a || b\<close>.\<close>

definition js_or :: "jsval \<Rightarrow> jsval \<Rightarrow> jsval" where
  "js_or a b = (if truthy a then a else b)"

text \<open>What array destructuring \<^verbatim>\<open>[a, b] = v\<close> iterates: the items of an array, the
  characters of a string; any other value is not iterable.\<close>

definition js_iter :: "jsval \<Rightarrow> jsval list option" where
  "js_iter v =
     (case v of
        JArr xs \<Rightarrow> Some xs
      | JStr s \<Rightarrow> Some (map (\<lambda>c. JStr [c]) s)
      | _ \<Rightarrow> None)"

definition nth_or_undef :: "jsval list \<Rightarrow> nat \<Rightarrow> jsval" where
  "nth_or_undef xs i = (if i < length xs then xs ! i else JUndef)"

text \<open>\<^verbatim>\<open>String.prototype.toUpperCase\<close> on ASCII letters.\<close>

definition toUpperCase :: "string \<Rightarrow> string" where
  "toUpperCase s =
     map (\<lambda>c. case map_of (zip ''abcdefghijklmnopqrstuvwxyz'' ''ABCDEFGHIJKLMNOPQRSTUVWXYZ'') c of
                 None \<Rightarrow> c | Some u \<Rightarrow> u) s"

text \<open>\<^verbatim>\<open>s.split(c)\<close> for a one-character separator: empty pieces are kept.\<close>

fun split_on :: "char \<Rightarrow> string \<Rightarrow> string list" where
  "split_on c [] = [[]]"
| "split_on c (x # xs) =
     (if x = c then [] # split_on c xs
      else (case split_on c xs of [] \<Rightarrow> [[x]] | t # ts \<Rightarrow> (x # t) # ts))"

definition is_space :: "char \<Rightarrow> bool" where
  "is_space c = (c \<in> set [CHR '' '', CHR 0x09, CHR 0x0A, CHR 0x0B, CHR 0x0C, CHR 0x0D])"

definition trim :: "string \<Rightarrow> string" where
  "trim s = rev (dropWhile is_space (rev (dropWhile is_space s)))"

text \<open>\<^verbatim>\<open>`${v}`\<close> for the falsy values, the only ones the code interpolates as a whole
  descriptor.\<close>

definition falsy_to_string :: "jsval \<Rightarrow> string" where
  "falsy_to_string v =
     (case v of
        JUndef \<Rightarrow> ''undefined''
      | JNull \<Rightarrow> ''null''
      | JBool b \<Rightarrow> ''false''
      | JNum n \<Rightarrow> ''0''
      | JEnum _ _ n \<Rightarrow> ''0''
      | _ \<Rightarrow> [])"

text \<open>\<^verbatim>\<open>`${type}`\<close> and \<^verbatim>\<open>type.toString()\<close>; a function prints as its name here.\<close>

definition type_to_string :: "native tfield \<Rightarrow> string" where
  "type_to_string t =
     (case t of TMissing \<Rightarrow> ''undefined'' | TString s \<Rightarrow> s | TFactory n w \<Rightarrow> n)"

section \<open>The surroundings: toolkit, diagnostics, effects\<close>

text \<open>
  What the code does not decide is a parameter: which keys are members of the toolkit's
  enumerations (\<^verbatim>\<open>Gtk.Align\<close>, \<^verbatim>\<open>GtkLayerShell.Layer\<close>, ...) and which number each member
  is, whether the binding throws when it is handed \<^verbatim>\<open>undefined\<close> where an enumeration
  value is due, and the number of monitors of the display.
\<close>

record env =
  enum_member :: "string \<Rightarrow> string \<Rightarrow> nat option"
  rejects_undefined :: bool
  n_monitors :: nat

text \<open>\<^verbatim>\<open>E[key]\<close> on an enumeration object: \<^verbatim>\<open>undefined\<close> for a key that is no member.\<close>

definition enum_lookup :: "env \<Rightarrow> string \<Rightarrow> string \<Rightarrow> jsval" where
  "enum_lookup e en key = (case enum_member e en key of None \<Rightarrow> JUndef | Some n \<Rightarrow> JEnum en key n)"

text \<open>Whether a native call or assignment with this enumeration value throws.\<close>

definition rejected :: "env \<Rightarrow> jsval \<Rightarrow> bool" where
  "rejected e v = (rejects_undefined e \<and> v = JUndef)"

text \<open>What a construction leaves behind besides the live object, in order: diagnostics,
  calls of the user's \<^verbatim>\<open>setup\<close> with the object as it is at that moment, timers and
  service subscriptions.\<close>

datatype effect =
    Warning string
  | Error string
  | TypeMismatch string string
  | UnknownOption string string
  | SetupCall string native
  | Interval real callback
  | ConnectWidget string callback "string option"

type_synonym trace = "effect list"

text \<open>What stops a construction: a \<^verbatim>\<open>TypeError\<close> thrown, or a value that is no widget
  standing where the engine goes on as if it were one.\<close>

datatype failure = TypeError string | NotAWidget string

definition is_diagnostic :: "effect \<Rightarrow> bool" where
  "is_diagnostic x =
     (case x of
        Warning _ \<Rightarrow> True | Error _ \<Rightarrow> True | TypeMismatch _ _ \<Rightarrow> True
      | UnknownOption _ _ \<Rightarrow> True | _ \<Rightarrow> False)"

text \<open>Modelled from the spec: \<^verbatim>\<open>warning\<close> and \<^verbatim>\<open>error\<close> of \<^verbatim>\<open>utils.js\<close>, which is not
  among the sources. They are sinks for a message.\<close>

definition warning :: "string \<Rightarrow> trace \<Rightarrow> trace" where
  "warning m tr = tr @ [Warning m]"

definition error :: "string \<Rightarrow> trace \<Rightarrow> trace" where
  "error m tr = tr @ [Error m]"

text \<open>Modelled from the spec: \<^verbatim>\<open>typecheck\<close> of \<^verbatim>\<open>utils.js\<close>, which is not among the
  sources. If the kind of the value is not among the expected ones it emits a
  diagnostic naming the context and the property; nothing is thrown.\<close>

definition typecheck :: "string \<Rightarrow> jsval \<Rightarrow> string list \<Rightarrow> string \<Rightarrow> trace \<Rightarrow> trace" where
  "typecheck name v kinds ctx tr =
     (if kind_of v \<in> set kinds then tr else tr @ [TypeMismatch ctx name])"

text \<open>Modelled from the spec: \<^verbatim>\<open>restcheck\<close> of \<^verbatim>\<open>utils.js\<close>, which is not among the
  sources. It emits one diagnostic for every key left over, naming the context.\<close>

definition restcheck :: "bag \<Rightarrow> string \<Rightarrow> trace \<Rightarrow> trace" where
  "restcheck rest ctx tr = tr @ map (\<lambda>(k, v). UnknownOption ctx k) rest"

text \<open>A typed optional field as a value.\<close>

definition opt_js :: "('a \<Rightarrow> jsval) \<Rightarrow> 'a option \<Rightarrow> jsval" where
  "opt_js f x = (case x of None \<Rightarrow> JUndef | Some a \<Rightarrow> f a)"

definition of_prim :: "prim \<Rightarrow> jsval" where
  "of_prim p =
     (case p of
        PUndefined \<Rightarrow> JUndef | PBoolean b \<Rightarrow> JBool b | PNumber n \<Rightarrow> JNum n | PString s \<Rightarrow> JStr s)"

section \<open>Style manager\<close>

definition setStyle :: "native \<Rightarrow> string \<Rightarrow> native" where
  "setStyle widget css =
     (let provider = new ''Gtk.CssProvider'' [];
          style = ''* { '' @ css @ '' }'';
          provider = invoke ''load_from_data'' [JStr style, JNum (real (length style))] provider
      in invoke ''get_style_context().add_provider''
           [JNative provider, JStr ''STYLE_PROVIDER_PRIORITY_USER''] widget)"

definition toggleClassName :: "native \<Rightarrow> string \<Rightarrow> bool \<Rightarrow> native" where
  "toggleClassName widget cn condition =
     (if condition then invoke ''add_css_class'' [JStr cn] widget
      else invoke ''remove_css_class'' [JStr cn] widget)"

text \<open>\<^verbatim>\<open>className.split(' ').forEach(cn => { if (cn) widget.add_css_class(cn) })\<close>.\<close>

definition add_classes :: "string \<Rightarrow> native \<Rightarrow> native" where
  "add_classes cls widget =
     foldl (\<lambda>w cn. if cn \<noteq> [] then invoke ''add_css_class'' [JStr cn] w else w)
       widget (split_on CHR '' '' cls)"

section \<open>Property resolver\<close>

text \<open>
  \<^verbatim>\<open>try { w.f = E[tok.toUpperCase()] } catch (err) { warning(msg) }\<close>. The lookup of an
  unknown key does not throw: it gives \<^verbatim>\<open>undefined\<close>. What throws is a token that is
  no string (it has no \<^verbatim>\<open>toUpperCase\<close>) or the binding when it rejects the value.
\<close>

definition try_assign_enum ::
  "env \<Rightarrow> string \<Rightarrow> string \<Rightarrow> jsval \<Rightarrow> string \<Rightarrow> native \<Rightarrow> trace \<Rightarrow> native \<times> trace" where
  "try_assign_enum e f en tok msg w tr =
     (case tok of
        JStr s \<Rightarrow>
          (let v = enum_lookup e en (toUpperCase s)
           in if rejected e v then (w, warning msg tr) else (assign f v w, tr))
      | _ \<Rightarrow> (w, warning msg tr))"

text \<open>One connection triple.\<close>

definition connect_one :: "conn_source \<times> callback \<times> string option \<Rightarrow> native \<times> trace \<Rightarrow> native \<times> trace" where
  "connect_one c wt =
     (case c of (s, callback, event) \<Rightarrow>
        (case wt of (widget, tr) \<Rightarrow>
           (case s of
              Signal n \<Rightarrow> (invoke ''connect'' [JStr n, JFun callback] widget, tr)
            | Every n \<Rightarrow> (widget, tr @ [Interval n callback])
            | Service n \<Rightarrow> (widget, tr @ [ConnectWidget n callback event]))))"

text \<open>A statement guarded by the presence of a typed field, \<^verbatim>\<open>if (typeof x === '...') f(x)\<close>
  or \<^verbatim>\<open>if (x) f(x)\<close>: it acts on the state when the field is there.\<close>

definition when_some :: "'a option \<Rightarrow> ('a \<Rightarrow> 's \<Rightarrow> 's) \<Rightarrow> 's \<Rightarrow> 's" where
  "when_some x f s = (case x of None \<Rightarrow> s | Some a \<Rightarrow> f a s)"

definition parseParams :: "env \<Rightarrow> native \<Rightarrow> native tfield \<Rightarrow> wprops \<Rightarrow> trace \<Rightarrow> native \<times> trace" where
  "parseParams e widget0 t wp tr0 =
     (let type = type_to_string t;
          vis = (case visible wp of None \<Rightarrow> True | Some b \<Rightarrow> b);
          tr = typecheck ''className'' (opt_js JStr (className wp)) [''string'', ''undefined''] type tr0;
          tr = typecheck ''style'' (opt_js JStr (style wp)) [''string'', ''undefined''] type tr;
          tr = typecheck ''sensitive'' (opt_js JBool (sensitive wp)) [''boolean'', ''undefined''] type tr;
          tr = typecheck ''tooltip'' (opt_js JStr (tooltip wp)) [''string'', ''undefined''] type tr;
          tr = typecheck ''halign'' (opt_js JStr (halign wp)) [''string'', ''undefined''] type tr;
          tr = typecheck ''valign'' (opt_js JStr (valign wp)) [''string'', ''undefined''] type tr;
          tr = typecheck ''hexpand'' (opt_js JBool (hexpand wp)) [''boolean'', ''undefined''] type tr;
          tr = typecheck ''vexpand'' (opt_js JBool (vexpand wp)) [''boolean'', ''undefined''] type tr;
          tr = typecheck ''visible'' (JBool vis) [''boolean''] type tr;
          widget = assign ''setStyle'' (JClosure ''setStyle'') widget0;
          widget = assign ''toggleClassName'' (JClosure ''toggleClassName'') widget;
          widget = when_some (className wp) add_classes widget;
          (widget, tr) = when_some (halign wp)
             (\<lambda>a (w, tr). try_assign_enum e ''halign'' ''Align'' (JStr a) ''wrong halign value'' w tr)
             (widget, tr);
          (widget, tr) = when_some (valign wp)
             (\<lambda>a (w, tr). try_assign_enum e ''valign'' ''Align'' (JStr a) ''wrong valign value'' w tr)
             (widget, tr);
          widget = when_some (hexpand wp) (\<lambda>b. assign ''hexpand'' (JBool b)) widget;
          widget = when_some (vexpand wp) (\<lambda>b. assign ''vexpand'' (JBool b)) widget;
          widget = when_some (sensitive wp) (\<lambda>b. assign ''sensitive'' (JBool b)) widget;
          widget = when_some (tooltip wp) (\<lambda>s. invoke ''set_tooltip_text'' [JStr s]) widget;
          widget = when_some (style wp) (\<lambda>css w. setStyle w css) widget;
          widget = assign ''visible'' (JBool vis) widget;
          widget = when_some (properties wp)
             (\<lambda>ps w. foldl (\<lambda>w (key, v). assign (''_'' @ key) (of_prim v) w) w ps) widget;
          (widget, tr) = when_some (connections wp)
             (\<lambda>cs wt. foldl (\<lambda>wt c. connect_one c wt) wt cs) (widget, tr);
          tr = when_some (setup_cb wp) (\<lambda>f tr. tr @ [SetupCall (cb_name f) widget]) tr
      in (widget, tr))"

text \<open>The last two calls of \<^verbatim>\<open>Widget\<close>: the property pass, then the event pass.\<close>

definition apply_passes :: "env \<Rightarrow> native \<Rightarrow> native tfield \<Rightarrow> wprops \<Rightarrow> listeners \<Rightarrow> trace \<Rightarrow> native \<times> trace" where
  "apply_passes e widget t wp ls tr =
     (let (widget, tr) = parseParams e widget t wp tr
      in (parseEventListeners widget ls, tr))"

section \<open>Leaf constructors\<close>

text \<open>
  The constructors of \<^verbatim>\<open>widgets.js\<close>. Each gets the object \<^verbatim>\<open>{ type, ...props }\<close>: here
  the registry key and the remaining keys. A constructor that builds nested descriptors
  calls \<^verbatim>\<open>Widget\<close>, which \<^verbatim>\<open>widgets.js\<close> imports from the engine's module; here that
  function is the parameter \<open>W\<close>. A build gives back the descriptor as it is afterwards,
  the effects, and the live object or what stopped the build.
\<close>

type_synonym build = "jsval \<Rightarrow> trace \<Rightarrow> jsval \<times> trace \<times> (failure + native)"

definition is_array :: "jsval \<Rightarrow> bool" where
  "is_array v = (case v of JArr _ \<Rightarrow> True | _ \<Rightarrow> False)"

definition arr_items :: "jsval \<Rightarrow> jsval list" where
  "arr_items v = (case v of JArr xs \<Rightarrow> xs | _ \<Rightarrow> [])"

text \<open>The items of an array of the descriptor as they are after a loop over them. When the
  key is absent or \<^verbatim>\<open>undefined\<close> the loop ran over the default, a fresh empty array, and
  the descriptor has nothing to show.\<close>

definition put_array :: "string \<Rightarrow> jsval list \<Rightarrow> bag \<Rightarrow> bag" where
  "put_array k xs b = (if is_array (get b k) then put k (JArr xs) b else b)"

text \<open>The function \<^verbatim>\<open>_orientation\<close> (a name cannot start with an underscore here).
  \<^verbatim>\<open>Gtk.Orientation.HORIZONTAL\<close>, which it names itself, is the first member of its
  enumeration.\<close>

definition orientation_of :: "env \<Rightarrow> jsval \<Rightarrow> trace \<Rightarrow> jsval \<times> trace" where
  "orientation_of e str0 tr =
     (let str = (if str0 = JStr ''v'' then JStr ''vertical'' else str0);
          str = (if str = JStr ''h'' then JStr ''horizontal'' else str)
      in (case str of
            JStr s \<Rightarrow> (enum_lookup e ''Orientation'' (toUpperCase s), tr)
          | _ \<Rightarrow> (JEnum ''Orientation'' ''HORIZONTAL'' 0, warning ''wrong orientation value'' tr)))"

text \<open>\<^verbatim>\<open>xs.forEach(f)\<close> where \<open>f\<close> works on a container: the items in order, the
  container and the effects threaded through, stopping at the first exception. The items
  come back as they are afterwards.\<close>

fun for_each ::
  "(jsval \<Rightarrow> native \<Rightarrow> trace \<Rightarrow> jsval \<times> trace \<times> (failure + native)) \<Rightarrow>
   jsval list \<Rightarrow> native \<Rightarrow> trace \<Rightarrow> jsval list \<times> trace \<times> (failure + native)" where
  "for_each f [] c tr = ([], tr, Inr c)"
| "for_each f (x # xs) c tr =
     (case f x c tr of
        (x', tr', Inl err) \<Rightarrow> (x' # xs, tr', Inl err)
      | (x', tr', Inr c') \<Rightarrow>
          (case for_each f xs c' tr' of (xs', tr'', r) \<Rightarrow> (x' # xs', tr'', r)))"

text \<open>\<^verbatim>\<open>if (child) c.set_child(Widget(child))\<close>.\<close>

definition set_child_if :: "build \<Rightarrow> bag \<Rightarrow> native \<Rightarrow> trace \<Rightarrow> bag \<times> trace \<times> (failure + native)" where
  "set_child_if W b c tr =
     (let child = get b ''child''
      in if truthy child then
           (case W child tr of
              (child', tr', Inl err) \<Rightarrow> (put ''child'' child' b, tr', Inl err)
            | (child', tr', Inr w) \<Rightarrow>
                (put ''child'' child' b, tr', Inr (invoke ''set_child'' [JNative w] c)))
         else (b, tr, Inr c))"

text \<open>\<^verbatim>\<open>w => box.append(Widget(w))\<close>.\<close>

definition append_item :: "build \<Rightarrow> jsval \<Rightarrow> native \<Rightarrow> trace \<Rightarrow> jsval \<times> trace \<times> (failure + native)" where
  "append_item W w box tr =
     (case W w tr of
        (w', tr', Inl err) \<Rightarrow> (w', tr', Inl err)
      | (w', tr', Inr c) \<Rightarrow> (w', tr', Inr (invoke ''append'' [JNative c] box)))"

definition Box :: "build \<Rightarrow> env \<Rightarrow> string \<Rightarrow> bag \<Rightarrow> trace \<Rightarrow> bag \<times> trace \<times> (failure + native)" where
  "Box W e type b tr0 =
     (let orientation = dflt (JStr ''horizontal'') (get b ''orientation'');
          homogeneous = dflt (JBool False) (get b ''homogeneous'');
          children = dflt (JArr []) (get b ''children'');
          tr = typecheck ''orientation'' orientation [''string''] type tr0;
          tr = typecheck ''homogeneous'' homogeneous [''boolean''] type tr;
          tr = typecheck ''children'' children [''array''] type tr;
          tr = restcheck (rest_of [''orientation'', ''homogeneous'', ''children''] b) type tr;
          (ori, tr) = orientation_of e orientation tr
      in if rejected e ori then (b, tr, Inl (TypeError ''Gtk.Box: orientation''))
         else if \<not> is_array children then
           (b, tr, Inl (TypeError ''children.forEach is not a function''))
         else
           (case for_each (append_item W) (arr_items children)
                   (new ''Gtk.Box'' [(''orientation'', ori), (''homogeneous'', homogeneous)]) tr of
              (ws', tr', Inl err) \<Rightarrow> (put_array ''children'' ws' b, tr', Inl err)
            | (ws', tr', Inr box) \<Rightarrow>
                (put_array ''children'' ws' b, tr',
                 Inr (assign ''removeChildren'' (JClosure ''removeChildren'') box))))"

definition CenterBox :: "build \<Rightarrow> env \<Rightarrow> string \<Rightarrow> bag \<Rightarrow> trace \<Rightarrow> bag \<times> trace \<times> (failure + native)" where
  "CenterBox W e type b tr0 =
     (let orientation = dflt (JStr ''horizontal'') (get b ''orientation'');
          tr = restcheck (rest_of [''startWidget'', ''centerWidget'', ''endWidget'', ''orientation''] b) type tr0;
          (ori, tr) = orientation_of e orientation tr
      in (case W (get b ''startWidget'') tr of
            (s', tr, Inl err) \<Rightarrow> (put ''startWidget'' s' b, tr, Inl err)
          | (s', tr, Inr sw) \<Rightarrow>
         (case W (get b ''centerWidget'') tr of
            (c', tr, Inl err) \<Rightarrow> (put ''centerWidget'' c' (put ''startWidget'' s' b), tr, Inl err)
          | (c', tr, Inr cw) \<Rightarrow>
         (case W (get b ''endWidget'') tr of
            (e', tr, Inl err) \<Rightarrow>
              (put ''endWidget'' e' (put ''centerWidget'' c' (put ''startWidget'' s' b)), tr, Inl err)
          | (e', tr, Inr ew) \<Rightarrow>
              (put ''endWidget'' e' (put ''centerWidget'' c' (put ''startWidget'' s' b)), tr,
               if rejected e ori then Inl (TypeError ''Gtk.CenterBox: orientation'')
               else Inr (new ''Gtk.CenterBox''
                      [(''orientation'', ori), (''start_widget'', JNative sw),
                       (''center_widget'', JNative cw), (''end_widget'', JNative ew)]))))))"

definition Icon :: "env \<Rightarrow> string \<Rightarrow> bag \<Rightarrow> trace \<Rightarrow> trace \<times> (failure + native)" where
  "Icon e type b tr0 =
     (let iconName = dflt (JStr []) (get b ''iconName'');
          icon = get b ''icon'';
          iconName = (if truthy icon then icon else iconName);
          tr = typecheck ''iconName'' iconName [''string''] type tr0;
          tr = restcheck (rest_of [''iconName'', ''icon''] b) type tr
      in (tr, Inr (new ''Gtk.Image'' [(''icon_name'', iconName)])))"

definition Label :: "env \<Rightarrow> string \<Rightarrow> bag \<Rightarrow> trace \<Rightarrow> trace \<times> (failure + native)" where
  "Label e type b tr0 =
     (let label = dflt (JStr []) (get b ''label'');
          markup = dflt (JBool False) (get b ''markup'');
          wrap = dflt (JBool False) (get b ''wrap'');
          maxWidth = dflt (JNum (- 1)) (get b ''maxWidth'');
          justify = dflt (JStr ''center'') (get b ''justify'');
          xalign = dflt (JNum (1 / 2)) (get b ''xalign'');
          yalign = dflt (JNum (1 / 2)) (get b ''yalign'');
          tr = typecheck ''label'' label [''string''] type tr0;
          tr = typecheck ''markup'' (js_or markup (JBool False)) [''boolean''] type tr;
          tr = typecheck ''wrap'' (js_or wrap (JBool False)) [''boolean''] type tr;
          tr = typecheck ''justify'' (js_or justify (JStr [])) [''string''] type tr;
          tr = typecheck ''xalign'' xalign [''number''] type tr;
          tr = typecheck ''yalign'' yalign [''number''] type tr;
          tr = restcheck (rest_of [''label'', ''markup'', ''wrap'', ''maxWidth'', ''justify'',
                 ''xalign'', ''yalign''] b) type tr;
          lbl = new ''Gtk.Label''
                  [(''label'', label), (''use_markup'', markup), (''max_width_chars'', maxWidth),
                   (''wrap'', wrap), (''xalign'', xalign), (''yalign'', yalign)];
          (lbl, tr) = try_assign_enum e ''justify'' ''Justification'' justify ''wrong justify value'' lbl tr
      in (tr, Inr lbl))"

definition Button :: "build \<Rightarrow> env \<Rightarrow> string \<Rightarrow> bag \<Rightarrow> trace \<Rightarrow> bag \<times> trace \<times> (failure + native)" where
  "Button W e type b tr0 =
     (let onClick = dflt (JStr []) (get b ''onClick'');
          tr = typecheck ''onClick'' onClick [''string'', ''function''] type tr0;
          tr = restcheck (rest_of [''child'', ''onClick''] b) type tr
      in (case set_child_if W b (new ''Gtk.Button'' []) tr of
            (b', tr', Inl err) \<Rightarrow> (b', tr', Inl err)
          | (b', tr', Inr btn) \<Rightarrow>
              (b', tr', Inr (invoke ''connect'' [JStr ''clicked'', JClosure ''runCmd(onClick)''] btn))))"

text \<open>The \<^verbatim>\<open>onScroll\<close> of a slider: it moves the adjustment and returns nothing.\<close>

definition slider_onScroll :: callback where
  "slider_onScroll = \<lparr>cb_name = ''Slider.onScroll'', cb_ret = (\<lambda>_. PUndefined)\<rparr>"

definition no_wprops :: wprops where
  "no_wprops = \<lparr>className = None, style = None, halign = None, valign = None, hexpand = None,
     vexpand = None, sensitive = None, tooltip = None, visible = None, connections = None,
     properties = None, setup_cb = None\<rparr>"

definition no_listeners :: listeners where
  "no_listeners = \<lparr>onFocusEnter = None, onFocusLeave = None, onKeyPressed = None,
     onKeyReleased = None, onMotion = None, onHoverEnter = None, onHoverLeave = None,
     onScroll = None, onScrollUp = None, onScrollDown = None, onButtonPressed = None,
     onButtonReleased = None\<rparr>"

text \<open>
  The slider is built by \<^verbatim>\<open>Widget({ type: () => new Gtk.Scale(...), onScroll: ... })\<close>. On a
  descriptor whose \<^verbatim>\<open>type\<close> is a factory \<^verbatim>\<open>Widget\<close> calls the factory and runs the two
  passes on its result (lemma \<open>Widget_factory\<close> below), which is what stands here.
  The step of the adjustment is \<open>(max - min) / 100\<close>.
\<close>

definition Slider :: "env \<Rightarrow> string \<Rightarrow> bag \<Rightarrow> trace \<Rightarrow> trace \<times> (failure + native)" where
  "Slider e type b tr0 =
     (let inverted = dflt (JBool False) (get b ''inverted'');
          orientation = dflt (JStr ''horizontal'') (get b ''orientation'');
          min = dflt (JNum 0) (get b ''min'');
          max = dflt (JNum 1) (get b ''max'');
          val = dflt (JNum 0) (get b ''value'');
          onChange = dflt (JStr []) (get b ''onChange'');
          drawValue = dflt (JBool False) (get b ''drawValue'');
          tr = typecheck ''inverted'' inverted [''boolean''] type tr0;
          tr = typecheck ''orientation'' orientation [''string''] type tr;
          tr = typecheck ''min'' min [''number''] type tr;
          tr = typecheck ''max'' max [''number''] type tr;
          tr = typecheck ''onChange'' onChange [''string'', ''function''] type tr;
          tr = typecheck ''value'' val [''number''] type tr;
          tr = typecheck ''drawValue'' drawValue [''boolean''] type tr;
          tr = restcheck (rest_of [''inverted'', ''orientation'', ''min'', ''max'', ''value'',
                 ''onChange'', ''drawValue''] b) type tr;
          (ori, tr) = orientation_of e orientation tr;
          step = (case (min, max) of (JNum lo, JNum hi) \<Rightarrow> JNum ((hi - lo) / 100) | _ \<Rightarrow> JUndef);
          scale = new ''Gtk.Scale''
                    [(''orientation'', ori),
                     (''adjustment'', JNative (new ''Gtk.Adjustment''
                        [(''value'', min), (''lower'', min), (''upper'', max), (''step_increment'', step)])),
                     (''drawValue'', drawValue), (''inverted'', inverted)]
      in if rejected e ori then (tr, Inl (TypeError ''Gtk.Scale: orientation''))
         else
           (let (slider, tr) = apply_passes e scale (TFactory ''Gtk.Scale'' scale) no_wprops
                                 (no_listeners\<lparr>onScroll := Some slider_onScroll\<rparr>) tr;
                slider = (if truthy onChange
                          then invoke ''adjustment.connect'' [JStr ''notify::value'', JClosure ''onChange''] slider
                          else slider)
            in (tr, Inr slider)))"

text \<open>
  \<^verbatim>\<open>try { w.f = E[tok.toUpperCase()] } catch (error) { error(msg) }\<close>: inside the handler
  \<^verbatim>\<open>error\<close> is the exception caught, not the diagnostic function, and calling it throws.
\<close>

definition try_assign_enum_shadowed ::
  "env \<Rightarrow> string \<Rightarrow> string \<Rightarrow> jsval \<Rightarrow> native \<Rightarrow> failure + native" where
  "try_assign_enum_shadowed e f en tok w =
     (case tok of
        JStr s \<Rightarrow>
          (let v = enum_lookup e en (toUpperCase s)
           in if rejected e v then Inl (TypeError ''error is not a function'') else Inr (assign f v w))
      | _ \<Rightarrow> Inl (TypeError ''error is not a function''))"

text \<open>One item \<^verbatim>\<open>[name, widget]\<close> of a stack.\<close>

definition put_item :: "jsval \<Rightarrow> nat \<Rightarrow> jsval \<Rightarrow> jsval" where
  "put_item x i v = (case x of JArr xs \<Rightarrow> JArr (xs[i := v]) | _ \<Rightarrow> x)"

definition stack_item :: "build \<Rightarrow> jsval \<Rightarrow> native \<Rightarrow> trace \<Rightarrow> jsval \<times> trace \<times> (failure + native)" where
  "stack_item W x stack tr =
     (case js_iter x of
        None \<Rightarrow> (x, tr, Inl (TypeError ''item is not iterable''))
      | Some xs \<Rightarrow>
          (let name = nth_or_undef xs 0; widget = nth_or_undef xs 1
           in if truthy widget then
                (case W widget tr of
                   (w', tr', Inl err) \<Rightarrow> (put_item x 1 w', tr', Inl err)
                 | (w', tr', Inr c) \<Rightarrow>
                     (put_item x 1 w', tr', Inr (invoke ''add_named'' [JNative c, name] stack)))
              else (x, tr, Inr stack)))"

definition Stack :: "build \<Rightarrow> env \<Rightarrow> string \<Rightarrow> bag \<Rightarrow> trace \<Rightarrow> bag \<times> trace \<times> (failure + native)" where
  "Stack W e type b tr0 =
     (let items = dflt (JArr []) (get b ''items'');
          hhomogeneous = dflt (JBool True) (get b ''hhomogeneous'');
          vhomogeneous = dflt (JBool True) (get b ''vhomogeneous'');
          interpolateSize = dflt (JBool False) (get b ''interpolateSize'');
          transition = dflt (JStr ''none'') (get b ''transition'');
          transitionDuration = dflt (JNum 200) (get b ''transitionDuration'');
          tr = typecheck ''hhomogeneous'' hhomogeneous [''boolean''] type tr0;
          tr = typecheck ''vhomogeneous'' vhomogeneous [''boolean''] type tr;
          tr = typecheck ''interpolateSize'' interpolateSize [''boolean''] type tr;
          tr = typecheck ''transition'' transition [''string''] type tr;
          tr = typecheck ''transitionDuration'' transitionDuration [''number''] type tr;
          tr = typecheck ''items'' items [''array''] type tr;
          tr = restcheck (rest_of [''items'', ''hhomogeneous'', ''vhomogeneous'', ''interpolateSize'',
                 ''transition'', ''transitionDuration''] b) type tr;
          stack = new ''Gtk.Stack''
                    [(''hhomogeneous'', hhomogeneous), (''vhomogeneous'', vhomogeneous),
                     (''interpolateSize'', interpolateSize), (''transitionDuration'', transitionDuration)]
      in (case try_assign_enum_shadowed e ''transitionType'' ''StackTransitionType'' transition stack of
            Inl err \<Rightarrow> (b, tr, Inl err)
          | Inr stack \<Rightarrow>
              if \<not> is_array items then (b, tr, Inl (TypeError ''items.forEach is not a function''))
              else
                (case for_each (stack_item W) (arr_items items) stack tr of
                   (xs', tr', Inl err) \<Rightarrow> (put_array ''items'' xs' b, tr', Inl err)
                 | (xs', tr', Inr stack) \<Rightarrow>
                     (put_array ''items'' xs' b, tr',
                      Inr (assign ''showChild'' (JClosure ''showChild'') stack)))))"

definition Entry :: "env \<Rightarrow> string \<Rightarrow> bag \<Rightarrow> trace \<Rightarrow> trace \<times> (failure + native)" where
  "Entry e type b tr0 =
     (let text = dflt (JStr []) (get b ''text'');
          placeholderText = dflt (JStr []) (get b ''placeholderText'');
          visibility = dflt (JBool True) (get b ''visibility'');
          onChange = dflt (JStr []) (get b ''onChange'');
          onAccept = dflt (JStr []) (get b ''onAccept'');
          tr = typecheck ''text'' text [''string''] type tr0;
          tr = typecheck ''placeholderText'' placeholderText [''string''] type tr;
          tr = typecheck ''onChange'' onChange [''string'', ''function''] type tr;
          tr = typecheck ''onAccept'' onAccept [''string'', ''function''] type tr;
          tr = typecheck ''visibility'' visibility [''boolean''] type tr;
          tr = restcheck (rest_of [''text'', ''placeholderText'', ''visibility'', ''onChange'',
                 ''onAccept''] b) type tr;
          entry = new ''Gtk.Entry''
                    [(''placeholderText'', placeholderText), (''visibility'', visibility), (''text'', text)];
          entry = (if truthy onAccept
                   then invoke ''connect'' [JStr ''activate'', JClosure ''onAccept''] entry else entry);
          entry = (if truthy onChange
                   then invoke ''buffer.connect'' [JStr ''notify::text'', JClosure ''onChange''] entry
                   else entry)
      in (tr, Inr entry))"

definition Scrollable :: "build \<Rightarrow> env \<Rightarrow> string \<Rightarrow> bag \<Rightarrow> trace \<Rightarrow> bag \<times> trace \<times> (failure + native)" where
  "Scrollable W e type b tr0 =
     (let hscroll = dflt (JStr ''automatic'') (get b ''hscroll'');
          vscroll = dflt (JStr ''automatic'') (get b ''vscroll'');
          tr = typecheck ''hscroll'' hscroll [''string''] type tr0;
          tr = typecheck ''vscroll'' vscroll [''string''] type tr;
          tr = restcheck (rest_of [''child'', ''hscroll'', ''vscroll''] b) type tr;
          scrollable = new ''Gtk.ScrolledWindow''
                         [(''hadjustment'', JNative (new ''Gtk.Adjustment'' [])),
                          (''vadjustment'', JNative (new ''Gtk.Adjustment'' []))]
      in (case (hscroll, vscroll) of
            (JStr h, JStr v) \<Rightarrow>
              (let hp = enum_lookup e ''PolicyType'' (toUpperCase h);
                   vp = enum_lookup e ''PolicyType'' (toUpperCase v)
               in if rejected e hp \<or> rejected e vp
                  then (b, tr, Inl (TypeError ''error is not a function''))
                  else set_child_if W b (invoke ''set_policy'' [hp, vp] scrollable) tr)
          | _ \<Rightarrow> (b, tr, Inl (TypeError ''error is not a function''))))"

definition Revealer :: "build \<Rightarrow> env \<Rightarrow> string \<Rightarrow> bag \<Rightarrow> trace \<Rightarrow> bag \<times> trace \<times> (failure + native)" where
  "Revealer W e type b tr0 =
     (let transition = dflt (JStr ''crossfade'') (get b ''transition'');
          transitionDuration = dflt (JNum 250) (get b ''transitionDuration'');
          duration = get b ''duration'';
          transitionDuration = (if truthy duration then duration else transitionDuration);
          tr = typecheck ''transition'' transition [''string''] type tr0;
          tr = typecheck ''transitionDuration'' transitionDuration [''number''] type tr;
          tr = restcheck (rest_of [''transition'', ''transitionDuration'', ''duration'', ''child''] b) type tr;
          revealer = new ''Gtk.Revealer'' [(''transitionDuration'', transitionDuration)]
      in (case try_assign_enum_shadowed e ''transitionType'' ''RevealerTransitionType'' transition revealer of
            Inl err \<Rightarrow> (b, tr, Inl err)
          | Inr revealer \<Rightarrow> set_child_if W b revealer tr))"

text \<open>One entry of \<^verbatim>\<open>overlays\<close>: its \<^verbatim>\<open>measure\<close> and \<^verbatim>\<open>clip\<close> keys are read, then deleted
  from the entry itself, and the entry is built.\<close>

definition overlay_item :: "build \<Rightarrow> jsval \<Rightarrow> native \<Rightarrow> trace \<Rightarrow> jsval \<times> trace \<times> (failure + native)" where
  "overlay_item W w overlay tr =
     (if w = JNull \<or> w = JUndef then (w, tr, Inl (TypeError ''cannot destructure''))
      else
        (let measure = member w ''measure'';
             clip = member w ''clip'';
             w = delete_key ''measure'' w;
             w = delete_key ''clip'' w
         in (case W w tr of
               (w', tr', Inl err) \<Rightarrow> (w', tr', Inl err)
             | (w', tr', Inr widget) \<Rightarrow>
                 (let overlay = invoke ''add_overlay'' [JNative widget] overlay;
                      overlay = (if kind_of clip = ''boolean''
                                 then invoke ''set_clip_overlay'' [JNative widget, clip] overlay
                                 else overlay);
                      overlay = (if kind_of measure = ''boolean''
                                 then invoke ''set_measure_overlay'' [JNative widget, measure] overlay
                                 else overlay)
                  in (w', tr', Inr overlay)))))"

definition Overlay :: "build \<Rightarrow> env \<Rightarrow> string \<Rightarrow> bag \<Rightarrow> trace \<Rightarrow> bag \<times> trace \<times> (failure + native)" where
  "Overlay W e type b tr0 =
     (let overlays = dflt (JArr []) (get b ''overlays'');
          tr = typecheck ''children'' overlays [''array''] type tr0;
          tr = restcheck (rest_of [''overlays'', ''child''] b) type tr
      in (case set_child_if W b (new ''Gtk.Overlay'' []) tr of
            (b', tr', Inl err) \<Rightarrow> (b', tr', Inl err)
          | (b', tr', Inr overlay) \<Rightarrow>
              if \<not> is_array overlays
              then (b', tr', Inl (TypeError ''overlays.forEach is not a function''))
              else
                (case for_each (overlay_item W) (arr_items overlays) overlay tr' of
                   (ws', tr'', r) \<Rightarrow> (put_array ''overlays'' ws' b', tr'', r))))"

definition Switch :: "env \<Rightarrow> string \<Rightarrow> bag \<Rightarrow> trace \<Rightarrow> trace \<times> (failure + native)" where
  "Switch e type b tr0 =
     (let active = dflt (JBool False) (get b ''active'');
          onActivate = dflt (JStr []) (get b ''onActivate'');
          tr = typecheck ''active'' active [''boolean''] type tr0;
          tr = typecheck ''onActivate'' onActivate [''string'', ''function''] type tr;
          tr = restcheck (rest_of [''active'', ''onActivate''] b) type tr;
          gtkswitch = new ''Gtk.Switch'' [(''active'', active)];
          gtkswitch = (if truthy onActivate
                       then invoke ''connect'' [JStr ''notify::active'', JClosure ''onActivate''] gtkswitch
                       else gtkswitch)
      in (tr, Inr gtkswitch))"

section \<open>Widget construction engine\<close>

text \<open>The registry \<^verbatim>\<open>widgets\<close>: its own keys, and the keys every object literal inherits
  from \<^verbatim>\<open>Object.prototype\<close>. The test \<^verbatim>\<open>type in widgets\<close> holds for both.\<close>

definition widgets_keys :: "string list" where
  "widgets_keys = [''box'', ''button'', ''centerbox'', ''entry'', ''icon'', ''label'', ''overlay'',
     ''progressbar'', ''revealer'', ''scrollable'', ''slider'', ''stack'', ''switch'']"

definition object_prototype_keys :: "string list" where
  "object_prototype_keys = [''constructor'', ''__defineGetter__'', ''__defineSetter__'',
     ''hasOwnProperty'', ''__lookupGetter__'', ''__lookupSetter__'', ''isPrototypeOf'',
     ''propertyIsEnumerable'', ''toString'', ''valueOf'', ''__proto__'', ''toLocaleString'']"

definition in_widgets :: "string \<Rightarrow> bool" where
  "in_widgets type = (type \<in> set widgets_keys \<or> type \<in> set object_prototype_keys)"

text \<open>
  What \<^verbatim>\<open>widgets[type]({ type, ...props })\<close> leads to for an inherited key. The value of
  \<^verbatim>\<open>__proto__\<close> is an object, not a function, and the two \<^verbatim>\<open>__define...__\<close> methods
  refuse their arguments: the call throws. \<^verbatim>\<open>constructor\<close> and \<^verbatim>\<open>valueOf\<close> return an
  ordinary object, which the engine then treats as a widget. The other methods return a
  primitive value or \<^verbatim>\<open>undefined\<close>, which is not \<^verbatim>\<open>null\<close>, and the first assignment of
  \<^verbatim>\<open>parseParams\<close> to it throws (the module is in strict mode).
\<close>

definition inherited_member :: "string \<Rightarrow> failure" where
  "inherited_member type =
     (if type \<in> set [''__proto__'', ''__defineGetter__'', ''__defineSetter__'']
      then TypeError ''widgets[type] is not a function''
      else if type \<in> set [''constructor'', ''valueOf''] then NotAWidget type
      else TypeError ''cannot assign to a property of a value that is no object'')"

definition leaf :: "bag \<Rightarrow> trace \<times> (failure + native) \<Rightarrow> bag \<times> trace \<times> (failure + native)" where
  "leaf b r = (b, fst r, snd r)"

text \<open>
  The registry as a function of the key. It names \<^verbatim>\<open>Basic.ProgressBar\<close>, which \<^verbatim>\<open>widgets.js\<close>
  does not export: the entry is \<^verbatim>\<open>undefined\<close> and calling it throws.
\<close>

definition widgets :: "build \<Rightarrow> env \<Rightarrow> string \<Rightarrow> bag \<Rightarrow> trace \<Rightarrow> bag \<times> trace \<times> (failure + native)" where
  "widgets W e type b tr =
     (if type = ''box'' then Box W e type b tr
      else if type = ''button'' then Button W e type b tr
      else if type = ''centerbox'' then CenterBox W e type b tr
      else if type = ''entry'' then leaf b (Entry e type b tr)
      else if type = ''icon'' then leaf b (Icon e type b tr)
      else if type = ''label'' then leaf b (Label e type b tr)
      else if type = ''overlay'' then Overlay W e type b tr
      else if type = ''progressbar'' then (b, tr, Inl (TypeError ''widgets[type] is not a function''))
      else if type = ''revealer'' then Revealer W e type b tr
      else if type = ''scrollable'' then Scrollable W e type b tr
      else if type = ''slider'' then leaf b (Slider e type b tr)
      else if type = ''stack'' then Stack W e type b tr
      else if type = ''switch'' then leaf b (Switch e type b tr)
      else (b, tr, Inl (inherited_member type)))"

text \<open>The placeholder for a descriptor whose type names no widget.\<close>

definition no_such_widget :: "jsval \<Rightarrow> native tfield \<Rightarrow> trace \<Rightarrow> jsval \<times> trace \<times> (failure + native)" where
  "no_such_widget params t tr =
     (params, error (''There is no widget with type '' @ type_to_string t) tr,
      Inr (new ''Gtk.Label'' [(''label'', JStr (type_to_string t @ '' doesn't exist''))]))"

lemma size_get_le: "size (get b k) \<le> size_list (size_prod (\<lambda>x. 0) size) b"
  unfolding get_def by (induction b) (auto split: if_splits)

lemma size_arr_items_le: "size_list size (arr_items v) \<le> size v"
  by (cases v) (auto simp: arr_items_def)

lemma size_mem_le: "x \<in> set xs \<Longrightarrow> size x \<le> size_list size xs"
  by (induction xs) auto

lemma size_items_get:
  "x \<in> set (arr_items (dflt (JArr []) (get b k))) \<Longrightarrow> size x \<le> size_list (size_prod (\<lambda>x. 0) size) b"
  using size_mem_le [of x "arr_items (get b k)"] size_arr_items_le [of "get b k"] size_get_le [of b k]
  by (auto simp: dflt_def arr_items_def split: if_splits)

lemma size_delete_key_le: "size (delete_key k v) \<le> size v"
proof (cases v)
  case (JObj t wp ls b)
  have "size_list f (filter P b) \<le> size_list f b" for f P
    by (induction b) auto
  then show ?thesis using JObj by (simp add: delete_key_def)
qed (simp_all add: delete_key_def)

lemma size_nth_or_undef_le: "size (nth_or_undef xs i) \<le> size_list size xs"
  by (auto simp: nth_or_undef_def intro: size_mem_le)

lemma size_js_iter_le: "js_iter x = Some xs \<Longrightarrow> size (nth_or_undef xs i) \<le> size x"
  using size_nth_or_undef_le [of xs i]
  by (cases x) (auto simp: js_iter_def nth_or_undef_def)

lemma for_each_cong:
  "(\<And>x c t. x \<in> set xs \<Longrightarrow> f x c t = g x c t) \<Longrightarrow> for_each f xs c t = for_each g xs c t"
  by (induction xs arbitrary: c t) (auto split: prod.splits sum.splits)

lemma set_child_if_cong:
  assumes "\<And>w t. size w \<le> size_list (size_prod (\<lambda>x. 0) size) b \<Longrightarrow> W w t = W' w t"
  shows "set_child_if W b = set_child_if W' b"
proof -
  have eq: "W (get b ''child'') = W' (get b ''child'')"
    by (rule ext) (simp add: assms size_get_le)
  show ?thesis
    by (intro ext) (simp add: set_child_if_def Let_def eq)
qed

lemma Box_cong:
  assumes "\<And>w t. size w \<le> size_list (size_prod (\<lambda>x. 0) size) b \<Longrightarrow> W w t = W' w t"
  shows "Box W e ty b tr = Box W' e ty b tr"
proof -
  have eq: "for_each (append_item W) (arr_items (dflt (JArr []) (get b ''children'')))
      = for_each (append_item W') (arr_items (dflt (JArr []) (get b ''children'')))"
    by (intro ext for_each_cong) (simp add: append_item_def assms size_items_get)
  show ?thesis unfolding Box_def Let_def eq by (rule refl)
qed

lemma CenterBox_cong:
  assumes "\<And>w t. size w \<le> size_list (size_prod (\<lambda>x. 0) size) b \<Longrightarrow> W w t = W' w t"
  shows "CenterBox W e ty b tr = CenterBox W' e ty b tr"
proof -
  have eq: "W (get b k) = W' (get b k)" for k
    by (rule ext) (simp add: assms size_get_le)
  show ?thesis unfolding CenterBox_def Let_def eq by (rule refl)
qed

lemma Button_cong:
  assumes "\<And>w t. size w \<le> size_list (size_prod (\<lambda>x. 0) size) b \<Longrightarrow> W w t = W' w t"
  shows "Button W e ty b tr = Button W' e ty b tr"
proof -
  have eq: "set_child_if W b = set_child_if W' b"
    by (rule set_child_if_cong) (rule assms)
  show ?thesis unfolding Button_def Let_def eq by (rule refl)
qed

lemma Scrollable_cong:
  assumes "\<And>w t. size w \<le> size_list (size_prod (\<lambda>x. 0) size) b \<Longrightarrow> W w t = W' w t"
  shows "Scrollable W e ty b tr = Scrollable W' e ty b tr"
proof -
  have eq: "set_child_if W b = set_child_if W' b"
    by (rule set_child_if_cong) (rule assms)
  show ?thesis unfolding Scrollable_def Let_def eq by (rule refl)
qed

lemma Revealer_cong:
  assumes "\<And>w t. size w \<le> size_list (size_prod (\<lambda>x. 0) size) b \<Longrightarrow> W w t = W' w t"
  shows "Revealer W e ty b tr = Revealer W' e ty b tr"
proof -
  have eq: "set_child_if W b = set_child_if W' b"
    by (rule set_child_if_cong) (rule assms)
  show ?thesis unfolding Revealer_def Let_def eq by (rule refl)
qed

lemma stack_item_cong:
  assumes "\<And>w t. size w \<le> size x \<Longrightarrow> W w t = W' w t"
  shows "stack_item W x c tr = stack_item W' x c tr"
proof (cases "js_iter x")
  case None
  then show ?thesis by (simp add: stack_item_def)
next
  case (Some xs)
  have "W (nth_or_undef xs 1) = W' (nth_or_undef xs 1)"
    by (rule ext) (simp add: assms size_js_iter_le [OF Some])
  then show ?thesis using Some by (simp add: stack_item_def Let_def)
qed

lemma Stack_cong:
  assumes "\<And>w t. size w \<le> size_list (size_prod (\<lambda>x. 0) size) b \<Longrightarrow> W w t = W' w t"
  shows "Stack W e ty b tr = Stack W' e ty b tr"
proof -
  have eq: "for_each (stack_item W) (arr_items (dflt (JArr []) (get b ''items'')))
      = for_each (stack_item W') (arr_items (dflt (JArr []) (get b ''items'')))"
  proof (intro ext for_each_cong)
    fix x c t assume x: "x \<in> set (arr_items (dflt (JArr []) (get b ''items'')))"
    show "stack_item W x c t = stack_item W' x c t"
      by (rule stack_item_cong) (use size_items_get [OF x] assms in auto)
  qed
  show ?thesis unfolding Stack_def Let_def eq by (rule refl)
qed

lemma overlay_item_cong:
  assumes "\<And>w t. size w \<le> size x \<Longrightarrow> W w t = W' w t"
  shows "overlay_item W x c tr = overlay_item W' x c tr"
proof -
  have "size (delete_key ''clip'' (delete_key ''measure'' x)) \<le> size x"
    using size_delete_key_le [of "''clip''" "delete_key ''measure'' x"]
      size_delete_key_le [of "''measure''" x] by simp
  then have "W (delete_key ''clip'' (delete_key ''measure'' x))
           = W' (delete_key ''clip'' (delete_key ''measure'' x))"
    by (intro ext assms)
  then show ?thesis by (simp add: overlay_item_def Let_def)
qed

lemma Overlay_cong:
  assumes "\<And>w t. size w \<le> size_list (size_prod (\<lambda>x. 0) size) b \<Longrightarrow> W w t = W' w t"
  shows "Overlay W e ty b tr = Overlay W' e ty b tr"
proof -
  have eq: "for_each (overlay_item W) (arr_items (dflt (JArr []) (get b ''overlays'')))
      = for_each (overlay_item W') (arr_items (dflt (JArr []) (get b ''overlays'')))"
  proof (intro ext for_each_cong)
    fix x c t assume x: "x \<in> set (arr_items (dflt (JArr []) (get b ''overlays'')))"
    show "overlay_item W x c t = overlay_item W' x c t"
      by (rule overlay_item_cong) (use size_items_get [OF x] assms in auto)
  qed
  have eq': "set_child_if W b = set_child_if W' b"
    by (rule set_child_if_cong) (rule assms)
  show ?thesis
    unfolding Overlay_def Let_def eq eq' by (rule refl)
qed

lemma widgets_cong [fundef_cong]:
  assumes "e = e'" and "ty = ty'" and "b = b'" and "tr = tr'"
    and "\<And>w t. size w \<le> size_list (size_prod (\<lambda>x. 0) size) b' \<Longrightarrow> W w t = W' w t"
  shows "widgets W e ty b tr = widgets W' e' ty' b' tr'"
proof -
  have "Box W e' k b' tr' = Box W' e' k b' tr'" for k
    by (rule Box_cong) (rule assms(5))
  moreover have "Button W e' k b' tr' = Button W' e' k b' tr'" for k
    by (rule Button_cong) (rule assms(5))
  moreover have "CenterBox W e' k b' tr' = CenterBox W' e' k b' tr'" for k
    by (rule CenterBox_cong) (rule assms(5))
  moreover have "Overlay W e' k b' tr' = Overlay W' e' k b' tr'" for k
    by (rule Overlay_cong) (rule assms(5))
  moreover have "Revealer W e' k b' tr' = Revealer W' e' k b' tr'" for k
    by (rule Revealer_cong) (rule assms(5))
  moreover have "Scrollable W e' k b' tr' = Scrollable W' e' k b' tr'" for k
    by (rule Scrollable_cong) (rule assms(5))
  moreover have "Stack W e' k b' tr' = Stack W' e' k b' tr'" for k
    by (rule Stack_cong) (rule assms(5))
  ultimately show ?thesis
    unfolding widgets_def assms(1-4) by simp
qed

lemma size_prod_bag [termination_simp]:
  "size_prod (\<lambda>x. 0) size = (\<lambda>x. Suc (size (snd x)))"
  by (rule ext) (simp add: size_prod_simp split: prod.splits)

text \<open>
  \<^verbatim>\<open>Widget\<close>. A native object stands for a widget (\<^verbatim>\<open>instanceof Gtk.Widget\<close>). A function
  other than a factory returns no widget. An array, \<^verbatim>\<open>true\<close> or a number other than zero
  has no \<^verbatim>\<open>type\<close>.
\<close>

fun Widget :: "env \<Rightarrow> jsval \<Rightarrow> trace \<Rightarrow> jsval \<times> trace \<times> (failure + native)" where
  "Widget e params tr =
     (if \<not> truthy params then
        (params, error ''Widget from null/undefined'' tr,
         Inr (new ''Gtk.Label''
           [(''label'', JStr (''error widget from: '' @ [CHR 0x22] @ falsy_to_string params @ [CHR 0x22]))]))
      else
        (case params of
           JStr s \<Rightarrow> (params, tr, Inr (new ''Gtk.Label'' [(''label'', JStr s)]))
         | JFactory n w \<Rightarrow> (params, tr, Inr w)
         | JFun f \<Rightarrow> (params, tr, Inl (NotAWidget (cb_name f)))
         | JHandler h \<Rightarrow> (params, tr, Inl (NotAWidget ''handler''))
         | JClosure n \<Rightarrow> (params, tr, Inl (NotAWidget n))
         | JNative w \<Rightarrow> (params, tr, Inr w)
         | JObj t wp ls b \<Rightarrow>
             (case t of
                TFactory n w \<Rightarrow>
                  (case apply_passes e w t wp ls tr of (w', tr') \<Rightarrow> (params, tr', Inr w'))
              | TString type \<Rightarrow>
                  if in_widgets type then
                    (case widgets (Widget e) e type b tr of
                       (b', tr', Inl err) \<Rightarrow> (JObj t wp ls b', tr', Inl err)
                     | (b', tr', Inr w) \<Rightarrow>
                         (case apply_passes e w t wp ls tr' of
                            (w', tr'') \<Rightarrow> (JObj t wp ls b', tr'', Inr w')))
                  else no_such_widget params t tr
              | TMissing \<Rightarrow> no_such_widget params t tr)
         | _ \<Rightarrow> no_such_widget params TMissing tr))"

section \<open>Surface configurator\<close>

text \<open>The \<^verbatim>\<open>margin\<close> of a window: a number or an array of numbers.\<close>

datatype margin = Scalar real | Sides "real list"

text \<open>The TypeScript interface \<^verbatim>\<open>Window\<close>, and the keys beyond it (\<^verbatim>\<open>...rest\<close>). An absent
  field is \<open>None\<close>; the child is a descriptor, \<^verbatim>\<open>null\<close> or absent. The monitor is an
  index into the display's list of monitors.\<close>

record window =
  win_name :: "string option"
  win_anchor :: "string option"
  win_child :: jsval
  win_className :: "string option"
  win_exclusive :: "bool option"
  win_focusable :: "bool option"
  win_layer :: "string option"
  win_margin :: "margin option"
  win_monitor :: "nat option"
  win_style :: "string option"
  win_visible :: "bool option"
  win_setup :: "callback option"
  win_dialog :: "bool option"
  win_rest :: bag

definition or_default :: "'a \<Rightarrow> 'a option \<Rightarrow> 'a" where
  "or_default d x = (case x of None \<Rightarrow> d | Some a \<Rightarrow> a)"

text \<open>Decimal digits of a monitor index, for the message.\<close>

function nat_to_string :: "nat \<Rightarrow> string" where
  "nat_to_string n =
     (if n < 10 then [char_of (48 + n)]
      else nat_to_string (n div 10) @ [char_of (48 + n mod 10)])"
  by pat_completeness auto
termination
  by (relation "measure id") auto

text \<open>One side of \<^verbatim>\<open>anchor\<close>:
  \<^verbatim>\<open>try { set_anchor(win, Edge[side.toUpperCase()], true) } catch (error) { warning(...) }\<close>.\<close>

definition set_anchor_side :: "env \<Rightarrow> native \<times> trace \<Rightarrow> string \<Rightarrow> native \<times> trace" where
  "set_anchor_side e wt side =
     (case wt of (win, tr) \<Rightarrow>
        (let v = enum_lookup e ''Edge'' (toUpperCase side)
         in if rejected e v then (win, warning ''wrong anchor value'' tr)
            else (invoke ''GtkLayerShell.set_anchor'' [v, JBool True] win, tr)))"

text \<open>The \<^verbatim>\<open>switch\<close> on the length of the margin array: the edge and the index of its
  value, for each edge to set.\<close>

definition margin_table :: "nat \<Rightarrow> (string \<times> nat) list" where
  "margin_table n =
     (if n = 1 then [(''TOP'', 0), (''RIGHT'', 0), (''BOTTOM'', 0), (''LEFT'', 0)]
      else if n = 2 then [(''TOP'', 0), (''RIGHT'', 1), (''BOTTOM'', 0), (''LEFT'', 1)]
      else if n = 3 then [(''TOP'', 0), (''RIGHT'', 1), (''BOTTOM'', 2), (''LEFT'', 1)]
      else if n = 4 then [(''TOP'', 0), (''RIGHT'', 1), (''BOTTOM'', 2), (''LEFT'', 3)]
      else [])"

text \<open>\<^verbatim>\<open>GtkLayerShell.Edge[side]\<close> for the four names of the table, with the numbers the
  layer-shell header gives the members.\<close>

definition edge_member :: "string \<Rightarrow> jsval" where
  "edge_member side =
     JEnum ''Edge'' side
       (if side = ''LEFT'' then 0 else if side = ''RIGHT'' then 1 else if side = ''TOP'' then 2 else 3)"

text \<open>The block \<^verbatim>\<open>if (margin) { ... }\<close>: a number is truthy unless it is zero, an array
  always. Every index of the table is within the array.\<close>

definition apply_margin :: "margin \<Rightarrow> native \<Rightarrow> native" where
  "apply_margin m win =
     (if (case m of Scalar x \<Rightarrow> x \<noteq> 0 | Sides xs \<Rightarrow> True) then
        (let margin = (case m of Scalar x \<Rightarrow> [x] | Sides xs \<Rightarrow> xs);
             margins = margin_table (length margin)
         in foldl (\<lambda>w (side, i).
               invoke ''GtkLayerShell.set_margin'' [edge_member side, JNum (margin ! i)] w)
              win margins)
      else win)"

text \<open>The block \<^verbatim>\<open>if (anchor) { anchor.trim().split(' ').forEach(...) }\<close>.\<close>

definition apply_anchor :: "env \<Rightarrow> string \<Rightarrow> native \<times> trace \<Rightarrow> native \<times> trace" where
  "apply_anchor e anchor wt =
     (if anchor \<noteq> [] then foldl (set_anchor_side e) wt (split_on CHR '' '' (trim anchor)) else wt)"

text \<open>The block \<^verbatim>\<open>if (typeof monitor === 'number') { ... }\<close>.\<close>

definition apply_monitor :: "env \<Rightarrow> nat option \<Rightarrow> native \<times> trace \<Rightarrow> native \<times> trace" where
  "apply_monitor e monitor wt =
     (case wt of (win, tr) \<Rightarrow>
        (case monitor of
           None \<Rightarrow> (win, tr)
         | Some m \<Rightarrow>
             if m < n_monitors e
             then (invoke ''GtkLayerShell.set_monitor'' [JNum (real m)] win, tr)
             else (win, warning (''Coulnd not find monitor with id '' @ nat_to_string m) tr)))"

text \<open>\<^verbatim>\<open>if (child) win.set_child(Widget(child))\<close>; \<open>orig\<close> is the child as the caller gave
  it, before the default.\<close>

definition window_child :: "env \<Rightarrow> jsval \<Rightarrow> jsval \<Rightarrow> native \<Rightarrow> trace \<Rightarrow> jsval \<times> trace \<times> (failure + native)" where
  "window_child e child orig win tr =
     (if truthy child
      then (case Widget e child tr of
              (child', tr', Inl err) \<Rightarrow> (child', tr', Inl err)
            | (child', tr', Inr c) \<Rightarrow> (child', tr', Inr (invoke ''set_child'' [JNative c] win)))
      else (orig, tr, Inr win))"

text \<open>The end of \<^verbatim>\<open>Window\<close>: keyboard mode, showing or hiding, \<^verbatim>\<open>setup\<close>.
  \<^verbatim>\<open>GtkLayerShell.KeyboardMode.ON_DEMAND\<close> is the third member of its enumeration.\<close>

definition show_window :: "window \<Rightarrow> native \<Rightarrow> trace \<Rightarrow> native \<times> trace" where
  "show_window p win0 tr =
     (let win = (if or_default False (win_focusable p)
                 then invoke ''GtkLayerShell.set_keyboard_mode'' [JEnum ''KeyboardMode'' ''ON_DEMAND'' 2] win0
                 else win0);
          win = (if or_default True (win_visible p) then invoke ''present'' [] win
                 else assign ''visible'' (JBool False) win);
          tr = (case win_setup p of None \<Rightarrow> tr | Some f \<Rightarrow> tr @ [SetupCall (cb_name f) win])
      in (win, tr))"

text \<open>\<^verbatim>\<open>Window\<close> from \<^verbatim>\<open>win.set_default_size(1, 1)\<close> to its end: everything done to the
  surface once it is constructed.\<close>

definition configure_surface :: "env \<Rightarrow> window \<Rightarrow> native \<Rightarrow> trace \<Rightarrow> jsval \<times> trace \<times> (failure + native)" where
  "configure_surface e p win0 tr0 =
     (let name = or_default ''gtk-layer-shell'' (win_name p);
          win = invoke ''set_default_size'' [JNum 1, JNum 1] win0;
          win = invoke ''GtkLayerShell.init_for_window'' [] win;
          win = invoke ''GtkLayerShell.set_namespace'' [JStr name] win;
          win = assign ''setStyle'' (JClosure ''setStyle'') win;
          win = assign ''toggleClassName'' (JClosure ''toggleClassName'') win;
          (win, tr) = apply_anchor e (or_default [] (win_anchor p)) (win, tr0);
          win = apply_margin (or_default (Sides []) (win_margin p)) win;
          lay = enum_lookup e ''Layer'' (toUpperCase (or_default ''top'' (win_layer p)))
      in if rejected e lay then (win_child p, tr, Inl (TypeError ''GtkLayerShell.set_layer''))
         else
           (let win = invoke ''GtkLayerShell.set_layer'' [lay] win;
                win = (if or_default False (win_exclusive p)
                       then invoke ''GtkLayerShell.auto_exclusive_zone_enable'' [] win else win);
                (win, tr) = apply_monitor e (win_monitor p) (win, tr);
                win = add_classes (or_default [] (win_className p)) win;
                win = (if or_default [] (win_style p) \<noteq> []
                       then setStyle win (or_default [] (win_style p)) else win)
            in (case window_child e (dflt JNull (win_child p)) (win_child p) win tr of
                  (child', tr', Inl err) \<Rightarrow> (child', tr', Inl err)
                | (child', tr', Inr win) \<Rightarrow>
                    (case show_window p win tr' of (win, tr'') \<Rightarrow> (child', tr'', Inr win)))))"

text \<open>\<^verbatim>\<open>Window\<close>: the defaults of the destructuring, the type checks, the construction of
  the surface, and its configuration.\<close>

definition Window :: "env \<Rightarrow> window \<Rightarrow> trace \<Rightarrow> jsval \<times> trace \<times> (failure + native)" where
  "Window e p tr0 =
     (let name = or_default ''gtk-layer-shell'' (win_name p);
          anchor = or_default [] (win_anchor p);
          margin = or_default (Sides []) (win_margin p);
          layer = or_default ''top'' (win_layer p);
          exclusive = or_default False (win_exclusive p);
          focusable = or_default False (win_focusable p);
          className = or_default [] (win_className p);
          monitor = win_monitor p;
          dialog = or_default False (win_dialog p);
          tr = typecheck ''name'' (JStr name) [''string''] ''window'' tr0;
          tr = typecheck ''anchor'' (JStr anchor) [''string''] ''window'' tr;
          tr = typecheck ''margin'' (case margin of Scalar x \<Rightarrow> JNum x | Sides xs \<Rightarrow> JArr (map JNum xs))
                 [''number'', ''array''] ''window'' tr;
          tr = typecheck ''layer'' (JStr layer) [''string''] ''window'' tr;
          tr = typecheck ''exclusive'' (JBool exclusive) [''boolean''] ''window'' tr;
          tr = typecheck ''focusable'' (JBool focusable) [''boolean''] ''window'' tr;
          tr = typecheck ''className'' (JStr className) [''string''] ''window'' tr;
          tr = typecheck ''monitor'' (opt_js (\<lambda>n. JNum (real n)) monitor) [''number'', ''undefined'']
                 ''window'' tr;
          tr = restcheck (win_rest p) (''window: '' @ name) tr;
          win = (if dialog then new ''Gtk.Dialog'' [(''name'', JStr name)]
                 else new ''Gtk.Window'' [(''name'', JStr name)])
      in configure_surface e p win tr)"

text \<open>Observers of a surface: the margin set on an edge (the last \<^verbatim>\<open>set_margin\<close> on it,
  if any), and the live object without its class, for comparing a dialog with a window.\<close>

definition margin_calls :: "native \<Rightarrow> (string \<times> real) list" where
  "margin_calls w =
     concat (map (\<lambda>(m, args). (case args of
                [JEnum en side n, JNum x] \<Rightarrow>
                  (if m = ''GtkLayerShell.set_margin'' \<and> en = ''Edge'' then [(side, x)] else [])
              | _ \<Rightarrow> [])) (calls w))"

definition margin_on :: "native \<Rightarrow> string \<Rightarrow> real option" where
  "margin_on w side = map_of (rev (margin_calls w)) side"

text \<open>The diagnostics the anchor block reports for a list of sides.\<close>

definition anchor_trace :: "env \<Rightarrow> string list \<Rightarrow> trace \<Rightarrow> trace" where
  "anchor_trace e xs tr = snd (foldl (set_anchor_side e) (new [] [], tr) xs)"

text \<open>A live object without its class, and a result of \<^verbatim>\<open>Window\<close> with the class forgotten
  in the live object and in every object a \<^verbatim>\<open>setup\<close> was called with: what is left is what
  the objects were constructed with and what was done to them.\<close>

definition without_class :: "native \<Rightarrow> native" where
  "without_class w = Native [] (init w) (calls w)"

definition effect_without_class :: "effect \<Rightarrow> effect" where
  "effect_without_class x = (case x of SetupCall f w \<Rightarrow> SetupCall f (without_class w) | _ \<Rightarrow> x)"

definition result_without_class ::
  "jsval \<times> trace \<times> (failure + native) \<Rightarrow> jsval \<times> trace \<times> (failure + native)" where
  "result_without_class r =
     (fst r, map effect_without_class (fst (snd r)), map_sum id without_class (snd (snd r)))"

text \<open>A descriptor that nowhere carries a \<^verbatim>\<open>measure\<close> or a \<^verbatim>\<open>clip\<close> key.\<close>

fun no_hints :: "jsval \<Rightarrow> bool" where
  "no_hints (JObj t wp ls b) =
     (''measure'' \<notin> fst ` set b \<and> ''clip'' \<notin> fst ` set b \<and> (\<forall>kv \<in> set b. no_hints (snd kv)))"
| "no_hints (JArr xs) = (\<forall>x \<in> set xs. no_hints x)"
| "no_hints _ = True"

definition edges :: "native \<Rightarrow> real option \<times> real option \<times> real option \<times> real option" where
  "edges w = (margin_on w ''TOP'', margin_on w ''RIGHT'', margin_on w ''BOTTOM'', margin_on w ''LEFT'')"

text \<open>A call of a \<^verbatim>\<open>setup\<close> callback among the effects, and a trace that extends another
  by effects none of which is a call of \<^verbatim>\<open>setup\<close>.\<close>

definition is_setup :: "effect \<Rightarrow> bool" where
  "is_setup x = (case x of SetupCall _ _ \<Rightarrow> True | _ \<Rightarrow> False)"

definition adds_no_setup :: "trace \<Rightarrow> trace \<Rightarrow> bool" where
  "adds_no_setup tr tr' = (\<exists>mid. tr' = tr @ mid \<and> filter is_setup mid = [])"

section \<open>Sample inputs\<close>

text \<open>A toolkit with the enumerations the code looks keys up in, as GTK 4 and the layer
  shell have them: the members of each in the order of their numbers, from zero.\<close>

definition gtk_enums :: "(string \<times> string list) list" where
  "gtk_enums =
     [(''Align'', [''FILL'', ''START'', ''END'', ''CENTER'', ''BASELINE'']),
      (''Orientation'', [''HORIZONTAL'', ''VERTICAL'']),
      (''Justification'', [''LEFT'', ''RIGHT'', ''CENTER'', ''FILL'']),
      (''Edge'', [''LEFT'', ''RIGHT'', ''TOP'', ''BOTTOM'']),
      (''Layer'', [''BACKGROUND'', ''BOTTOM'', ''TOP'', ''OVERLAY'']),
      (''PolicyType'', [''ALWAYS'', ''AUTOMATIC'', ''NEVER'', ''EXTERNAL'']),
      (''StackTransitionType'',
       [''NONE'', ''CROSSFADE'', ''SLIDE_RIGHT'', ''SLIDE_LEFT'', ''SLIDE_UP'', ''SLIDE_DOWN'',
        ''SLIDE_LEFT_RIGHT'', ''SLIDE_UP_DOWN'', ''OVER_UP'', ''OVER_DOWN'', ''OVER_LEFT'',
        ''OVER_RIGHT'', ''UNDER_UP'', ''UNDER_DOWN'', ''UNDER_LEFT'', ''UNDER_RIGHT'',
        ''OVER_UP_DOWN'', ''OVER_DOWN_UP'', ''OVER_LEFT_RIGHT'', ''OVER_RIGHT_LEFT'',
        ''ROTATE_LEFT'', ''ROTATE_RIGHT'', ''ROTATE_LEFT_RIGHT'']),
      (''RevealerTransitionType'',
       [''NONE'', ''CROSSFADE'', ''SLIDE_RIGHT'', ''SLIDE_LEFT'', ''SLIDE_UP'', ''SLIDE_DOWN'',
        ''SWING_RIGHT'', ''SWING_LEFT'', ''SWING_UP'', ''SWING_DOWN''])]"

fun position :: "string \<Rightarrow> string list \<Rightarrow> nat option" where
  "position key [] = None"
| "position key (k # ks) =
     (if k = key then Some 0 else (case position key ks of None \<Rightarrow> None | Some n \<Rightarrow> Some (Suc n)))"

definition gtk_members :: "string \<Rightarrow> string \<Rightarrow> nat option" where
  "gtk_members en key = (case map_of gtk_enums en of None \<Rightarrow> None | Some keys \<Rightarrow> position key keys)"

definition gtk :: "bool \<Rightarrow> env" where
  "gtk strict = \<lparr>enum_member = gtk_members, rejects_undefined = strict, n_monitors = 1\<rparr>"

text \<open>A callback that returns nothing, and one that returns \<^verbatim>\<open>false\<close>.\<close>

definition quiet_cb :: callback where
  "quiet_cb = \<lparr>cb_name = ''quiet'', cb_ret = (\<lambda>_. PUndefined)\<rparr>"

definition false_cb :: callback where
  "false_cb = \<lparr>cb_name = ''no'', cb_ret = (\<lambda>_. PBoolean False)\<rparr>"

definition no_window :: window where
  "no_window = \<lparr>win_name = None, win_anchor = None, win_child = JUndef, win_className = None,
     win_exclusive = None, win_focusable = None, win_layer = None, win_margin = None,
     win_monitor = None, win_style = None, win_visible = None, win_setup = None,
     win_dialog = None, win_rest = []\<rparr>"

definition a_setup :: callback where
  "a_setup = \<lparr>cb_name = ''setup'', cb_ret = (\<lambda>_. PUndefined)\<rparr>"

definition up_cb :: callback where
  "up_cb = \<lparr>cb_name = ''up'', cb_ret = (\<lambda>_. PUndefined)\<rparr>"

definition down_cb :: callback where
  "down_cb = \<lparr>cb_name = ''down'', cb_ret = (\<lambda>_. PUndefined)\<rparr>"

definition sample_label :: jsval where
  "sample_label =
     JObj (TString ''label'') (no_wprops\<lparr>className := Some ''big'', setup_cb := Some a_setup\<rparr>)
       (no_listeners\<lparr>onFocusEnter := Some up_cb\<rparr>) [(''label'', JStr ''hi'')]"

definition sample_overlay :: jsval where
  "sample_overlay =
     JObj (TString ''overlay'') no_wprops no_listeners
       [(''overlays'', JArr [JObj (TString ''label'') no_wprops no_listeners
           [(''label'', JStr ''x''), (''clip'', JBool True)]])]"

section \<open>Properties of the event multiplexer\<close>

lemma handleEvent_calls: "fst (handleEvent cb args) = [(cb_name cb, args)]"
  by (simp add: handleEvent_def)

lemma handleEvent_ret: "snd (handleEvent cb args) = (cb_ret cb args \<noteq> PBoolean False)"
  by (simp add: handleEvent_def split: prim.splits)

lemma handleEvent_eq:
  "handleEvent cb args = ([(cb_name cb, args)], cb_ret cb args \<noteq> PBoolean False)"
  by (simp add: prod_eq_iff handleEvent_calls handleEvent_ret)

lemma controllers_new [simp]: "controllers (new k p) = []"
  by (simp add: controllers_def new_def)

lemma controllers_invoke_add [simp]:
  "controllers (invoke ''add_controller'' [JNative c] w) = controllers w @ [c]"
  by (simp add: controllers_def invoke_def)

lemma kind_connect_if [simp]: "kind (connect_if s sg h c) = kind c"
  by (simp add: connect_if_def invoke_def split: option.splits)

lemma kind_invoke [simp]: "kind (invoke m a c) = kind c"
  by (simp add: invoke_def)

lemma kind_new [simp]: "kind (new k p) = k"
  by (simp add: new_def)

lemma handlers_of_new [simp]: "handlers_of s (new k p) = []"
  by (simp add: handlers_of_def new_def)

lemma handlers_of_set_flags [simp]:
  "handlers_of s (invoke ''set_flags'' [BOTH_AXES] c) = handlers_of s c"
  by (simp add: handlers_of_def invoke_def BOTH_AXES_def)

lemma handlers_of_connect_if [simp]:
  "handlers_of s (connect_if slot s' f c) =
     handlers_of s c @ (if s' = s then (case slot of None \<Rightarrow> [] | Some cb \<Rightarrow> [f cb]) else [])"
  by (simp add: handlers_of_def connect_if_def invoke_def split: option.splits)

text \<open>The controllers the event pass attaches, each with its connections.\<close>

lemma controllers_parseEventListeners:
  "controllers (parseEventListeners w l) =
     controllers w
     @ (if onFocusLeave l \<noteq> None \<or> onFocusEnter l \<noteq> None
        then [connect_if (onFocusLeave l) ''leave'' no_args_handler
               (connect_if (onFocusEnter l) ''enter'' no_args_handler
                 (new ''Gtk.EventControllerFocus'' []))] else [])
     @ (if onKeyReleased l \<noteq> None \<or> onKeyPressed l \<noteq> None
        then [connect_if (onKeyReleased l) ''key-released'' plain_handler
               (connect_if (onKeyPressed l) ''key-pressed'' plain_handler
                 (new ''Gtk.EventControllerKey'' []))] else [])
     @ (if onMotion l \<noteq> None \<or> onHoverLeave l \<noteq> None \<or> onHoverEnter l \<noteq> None
        then [connect_if (onHoverEnter l) ''enter'' plain_handler
               (connect_if (onHoverLeave l) ''leave'' no_args_handler
                 (connect_if (onMotion l) ''motion'' plain_handler
                   (new ''Gtk.EventControllerMotion'' [])))] else [])
     @ (if onScroll l \<noteq> None \<or> onScrollUp l \<noteq> None \<or> onScrollDown l \<noteq> None
        then [connect_if (onScrollDown l) ''scroll'' scrollDown_handler
               (connect_if (onScrollUp l) ''scroll'' scrollUp_handler
                 (connect_if (onScroll l) ''scroll'' plain_handler
                   (invoke ''set_flags'' [BOTH_AXES] (new ''Gtk.EventControllerScroll'' []))))] else [])
     @ (if onButtonPressed l \<noteq> None \<or> onButtonReleased l \<noteq> None
        then [connect_if (onButtonReleased l) ''event'' (button_handler BUTTON_RELEASE)
               (connect_if (onButtonPressed l) ''event'' (button_handler BUTTON_PRESS)
                 (new ''Gtk.EventControllerLegacy'' []))] else [])"
  unfolding parseEventListeners_def Let_def
  by (simp del: not_None_eq)

lemma kinds_parseEventListeners:
  "map kind (controllers (parseEventListeners w l)) =
     map kind (controllers w)
     @ (if onFocusLeave l \<noteq> None \<or> onFocusEnter l \<noteq> None then [''Gtk.EventControllerFocus''] else [])
     @ (if onKeyReleased l \<noteq> None \<or> onKeyPressed l \<noteq> None then [''Gtk.EventControllerKey''] else [])
     @ (if onMotion l \<noteq> None \<or> onHoverLeave l \<noteq> None \<or> onHoverEnter l \<noteq> None
        then [''Gtk.EventControllerMotion''] else [])
     @ (if onScroll l \<noteq> None \<or> onScrollUp l \<noteq> None \<or> onScrollDown l \<noteq> None
        then [''Gtk.EventControllerScroll''] else [])
     @ (if onButtonPressed l \<noteq> None \<or> onButtonReleased l \<noteq> None
        then [''Gtk.EventControllerLegacy''] else [])"
  unfolding controllers_parseEventListeners
  by (simp del: not_None_eq)

lemma scroll_handlers:
  "concat (map (handlers_of ''scroll'') (controllers (parseEventListeners w l))) =
     concat (map (handlers_of ''scroll'') (controllers w))
     @ (case onScroll l of None \<Rightarrow> [] | Some cb \<Rightarrow> [plain_handler cb])
     @ (case onScrollUp l of None \<Rightarrow> [] | Some cb \<Rightarrow> [scrollUp_handler cb])
     @ (case onScrollDown l of None \<Rightarrow> [] | Some cb \<Rightarrow> [scrollDown_handler cb])"
  unfolding controllers_parseEventListeners
  by (simp del: not_None_eq)

lemma mem_connect_if:
  assumes "h \<in> set (handlers_of s (connect_if slot s' f c))"
  shows "h \<in> set (handlers_of s c) \<or> (\<exists>cb. slot = Some cb \<and> h = f cb)"
  using assms by (cases slot) (auto cong: if_cong split: if_splits)

lemma attached_handlers:
  assumes "c \<in> set (drop (length (controllers w)) (controllers (parseEventListeners w l)))"
    and "h \<in> set (handlers_of s c)"
  shows "\<exists>cb \<in> set (callbacks_of l). h \<in> closures cb"
proof -
  let ?F = "connect_if (onFocusLeave l) ''leave'' no_args_handler
              (connect_if (onFocusEnter l) ''enter'' no_args_handler
                (new ''Gtk.EventControllerFocus'' []))"
  let ?K = "connect_if (onKeyReleased l) ''key-released'' plain_handler
              (connect_if (onKeyPressed l) ''key-pressed'' plain_handler
                (new ''Gtk.EventControllerKey'' []))"
  let ?M = "connect_if (onHoverEnter l) ''enter'' plain_handler
              (connect_if (onHoverLeave l) ''leave'' no_args_handler
                (connect_if (onMotion l) ''motion'' plain_handler
                  (new ''Gtk.EventControllerMotion'' [])))"
  let ?S = "connect_if (onScrollDown l) ''scroll'' scrollDown_handler
              (connect_if (onScrollUp l) ''scroll'' scrollUp_handler
                (connect_if (onScroll l) ''scroll'' plain_handler
                  (invoke ''set_flags'' [BOTH_AXES] (new ''Gtk.EventControllerScroll'' []))))"
  let ?B = "connect_if (onButtonReleased l) ''event'' (button_handler BUTTON_RELEASE)
              (connect_if (onButtonPressed l) ''event'' (button_handler BUTTON_PRESS)
                (new ''Gtk.EventControllerLegacy'' []))"
  have "c \<in> {?F, ?K, ?M, ?S, ?B}"
    using assms(1) unfolding controllers_parseEventListeners
    by (simp del: not_None_eq handlers_of_connect_if split: if_splits, blast)
  then consider "c = ?F" | "c = ?K" | "c = ?M" | "c = ?S" | "c = ?B" by blast
  then have "\<exists>cb. Some cb \<in> set [onFocusEnter l, onFocusLeave l, onKeyPressed l, onKeyReleased l,
            onMotion l, onHoverEnter l, onHoverLeave l, onScroll l, onScrollUp l, onScrollDown l,
            onButtonPressed l, onButtonReleased l] \<and> h \<in> closures cb"
  proof cases
    case 1
    with assms(2) show ?thesis
      by (auto simp del: handlers_of_connect_if simp: closures_def dest!: mem_connect_if)
  next
    case 2
    with assms(2) show ?thesis
      by (auto simp del: handlers_of_connect_if simp: closures_def dest!: mem_connect_if)
  next
    case 3
    with assms(2) show ?thesis
      by (auto simp del: handlers_of_connect_if simp: closures_def dest!: mem_connect_if)
  next
    case 4
    with assms(2) show ?thesis
      by (auto simp del: handlers_of_connect_if simp: closures_def dest!: mem_connect_if)
  next
    case 5
    with assms(2) show ?thesis
      by (auto simp del: handlers_of_connect_if simp: closures_def dest!: mem_connect_if)
  qed
  then show ?thesis unfolding callbacks_of_def by (auto split: option.splits)
qed

lemma scrollUp_result:
  "scrollUp_handler cb args = ([], False) \<or> (\<exists>args'. scrollUp_handler cb args = handleEvent cb args')"
proof (cases "\<exists>dx dy. args = [ANum dx, ANum dy] \<and> (dy < 0 \<or> dx < 0)")
  case True
  then obtain dx dy where "args = [ANum dx, ANum dy]" "dy < 0 \<or> dx < 0" by blast
  then have "scrollUp_handler cb args = handleEvent cb [ANum dx, ANum dy]"
    by (simp add: scrollUp_handler_def)
  then show ?thesis by blast
next
  case False
  then have "scrollUp_handler cb args = ([], False)"
    by (auto simp: scrollUp_handler_def split: list.splits sigarg.splits)
  then show ?thesis by blast
qed

lemma scrollDown_result:
  "scrollDown_handler cb args = ([], False) \<or> (\<exists>args'. scrollDown_handler cb args = handleEvent cb args')"
proof (cases "\<exists>dx dy. args = [ANum dx, ANum dy] \<and> (dy > 0 \<or> dx > 0)")
  case True
  then obtain dx dy where "args = [ANum dx, ANum dy]" "dy > 0 \<or> dx > 0" by blast
  then have "scrollDown_handler cb args = handleEvent cb [ANum dx, ANum dy]"
    by (simp add: scrollDown_handler_def)
  then show ?thesis by blast
next
  case False
  then have "scrollDown_handler cb args = ([], False)"
    by (auto simp: scrollDown_handler_def split: list.splits sigarg.splits)
  then show ?thesis by blast
qed

lemma button_result:
  "button_handler phase cb args = ([], False)
   \<or> (\<exists>args'. button_handler phase cb args = handleEvent cb args')"
proof (cases "\<exists>b. args = [AEvent phase b]")
  case True
  then obtain b where "args = [AEvent phase b]" by blast
  then have "button_handler phase cb args = handleEvent cb [ANum b]"
    by (simp add: button_handler_def)
  then show ?thesis by blast
next
  case False
  then have "button_handler phase cb args = ([], False)"
    by (auto simp: button_handler_def split: list.splits sigarg.splits)
  then show ?thesis by blast
qed

lemma closure_result:
  assumes "h \<in> closures cb"
  shows "h args = ([], False) \<or> (\<exists>args'. h args = handleEvent cb args')"
proof -
  have "plain_handler cb args = handleEvent cb args" "no_args_handler cb args = handleEvent cb []"
    by (simp_all add: plain_handler_def no_args_handler_def)
  then show ?thesis
    using assms scrollUp_result [of cb args] scrollDown_result [of cb args]
      button_result [of BUTTON_PRESS cb args] button_result [of BUTTON_RELEASE cb args]
    unfolding closures_def by blast
qed

text \<open>An emission reaches a handler when no handler connected before it stopped it.\<close>

lemma run_handlers_append:
  "run_handlers stop (pre @ hs) args =
     (if stop \<and> (\<exists>h \<in> set pre. snd (h args)) then run_handlers stop pre args
      else run_handlers stop pre args @ run_handlers stop hs args)"
  by (induction pre) (auto simp: split_beta)

lemma emit_reaches:
  assumes "handlers_of s c = pre @ hs" and "\<forall>h \<in> set pre. \<not> snd (h args)"
  shows "emit s c args = run_handlers (has_result s) pre args @ run_handlers (has_result s) hs args"
  using assms by (simp add: emit_def run_handlers_append)

text \<open>The scroll controller of a label whose descriptor has the two directional slots.\<close>

lemma sample_scroll_controllers:
  "controllers (parseEventListeners (new ''Gtk.Label'' [])
       (no_listeners\<lparr>onScrollUp := Some cb, onScrollDown := Some down_cb\<rparr>)) =
     [connect_if (Some down_cb) ''scroll'' scrollDown_handler
       (connect_if (Some cb) ''scroll'' scrollUp_handler
         (connect_if None ''scroll'' plain_handler
           (invoke ''set_flags'' [BOTH_AXES] (new ''Gtk.EventControllerScroll'' []))))]"
  unfolding controllers_parseEventListeners by (simp add: no_listeners_def)




lemma scrollUp_calls:
  "fst (scrollUp_handler cb [ANum dx, ANum dy]) =
     (if dy < 0 \<or> dx < 0 then [(cb_name cb, [ANum dx, ANum dy])] else [])"
  by (simp add: scrollUp_handler_def handleEvent_calls)

lemma scrollDown_calls:
  "fst (scrollDown_handler cb [ANum dx, ANum dy]) =
     (if dy > 0 \<or> dx > 0 then [(cb_name cb, [ANum dx, ANum dy])] else [])"
  by (simp add: scrollDown_handler_def handleEvent_calls)

lemma plain_calls: "fst (plain_handler cb args) = [(cb_name cb, args)]"
  by (simp add: plain_handler_def handleEvent_calls)

text \<open>
  Claim C2. For every widget and every descriptor with \<^verbatim>\<open>onScrollUp\<close> and
  \<^verbatim>\<open>onScrollDown\<close> wired, the event pass adds to the scroll handlers of the widget the
  handler of \<^verbatim>\<open>onScroll\<close> (when wired), then the one of \<^verbatim>\<open>onScrollUp\<close>, then the one of
  \<^verbatim>\<open>onScrollDown\<close>. On a scroll event with the deltas \<open>(dx, dy)\<close> the handler of
  \<^verbatim>\<open>onScrollUp\<close> invokes its callback exactly when \<open>dy < 0\<close> or \<open>dx < 0\<close> and the handler of
  \<^verbatim>\<open>onScrollDown\<close> exactly when \<open>dy > 0\<close> or \<open>dx > 0\<close>: a negative delta on either axis
  qualifies as scroll-up, a positive delta on either axis as scroll-down. So with
  \<open>dy = -1\<close> and \<open>dx = 0\<close> the callback of \<^verbatim>\<open>onScrollUp\<close> is invoked and the one of
  \<^verbatim>\<open>onScrollDown\<close> is not; with \<open>dy = 1\<close> (and no negative \<open>dx\<close>) the callback of
  \<^verbatim>\<open>onScrollDown\<close> is invoked and the one of \<^verbatim>\<open>onScrollUp\<close> is not; with \<open>dy = 0\<close> and
  \<open>dx = -1\<close> the callback of \<^verbatim>\<open>onScrollUp\<close> is invoked.
\<close>

theorem scroll_direction_filtering:
  assumes "onScrollUp l = Some up" and "onScrollDown l = Some down"
  shows "scroll_calls (parseEventListeners w l) dx dy =
     scroll_calls w dx dy
     @ (case onScroll l of None \<Rightarrow> [] | Some cb \<Rightarrow> [[(cb_name cb, [ANum dx, ANum dy])]])
     @ [if dy < 0 \<or> dx < 0 then [(cb_name up, [ANum dx, ANum dy])] else [],
        if dy > 0 \<or> dx > 0 then [(cb_name down, [ANum dx, ANum dy])] else []]"
  unfolding scroll_calls_def scroll_handlers
  using assms by (simp add: scrollUp_calls scrollDown_calls plain_calls split: option.splits)

theorem scroll_direction_filtering_witness:
  "scroll_calls (parseEventListeners (new ''Gtk.Label'' [])
       (no_listeners\<lparr>onScrollUp := Some up_cb, onScrollDown := Some down_cb\<rparr>)) 0 (-1)
     = [[(''up'', [ANum 0, ANum (-1)])], []]
   \<and> scroll_calls (parseEventListeners (new ''Gtk.Label'' [])
       (no_listeners\<lparr>onScrollUp := Some up_cb, onScrollDown := Some down_cb\<rparr>)) 0 1
     = [[], [(''down'', [ANum 0, ANum 1])]]
   \<and> scroll_calls (parseEventListeners (new ''Gtk.Label'' [])
       (no_listeners\<lparr>onScrollUp := Some up_cb, onScrollDown := Some down_cb\<rparr>)) (-1) 0
     = [[(''up'', [ANum (-1), ANum 0])], []]"
  using
    scroll_direction_filtering [of "no_listeners\<lparr>onScrollUp := Some up_cb, onScrollDown := Some down_cb\<rparr>"
      up_cb down_cb "new ''Gtk.Label'' []" 0 "-1"]
    scroll_direction_filtering [of "no_listeners\<lparr>onScrollUp := Some up_cb, onScrollDown := Some down_cb\<rparr>"
      up_cb down_cb "new ''Gtk.Label'' []" 0 1]
    scroll_direction_filtering [of "no_listeners\<lparr>onScrollUp := Some up_cb, onScrollDown := Some down_cb\<rparr>"
      up_cb down_cb "new ''Gtk.Label'' []" "-1" 0]
  by (simp add: no_listeners_def up_cb_def down_cb_def scroll_calls_def)

text \<open>The same three events as one emission of \<^verbatim>\<open>scroll\<close> on the controller of a widget
  that has the two directional slots and no \<^verbatim>\<open>onScroll\<close>: the callbacks called, in
  order.\<close>

lemma directional_emission:
  "map (\<lambda>c. emit ''scroll'' c [ANum 0, ANum (- 1)])
       (controllers (parseEventListeners (new ''Gtk.Label'' [])
          (no_listeners\<lparr>onScrollUp := Some up, onScrollDown := Some down_cb\<rparr>)))
     = [[(cb_name up, [ANum 0, ANum (- 1)])]]
   \<and> map (\<lambda>c. emit ''scroll'' c [ANum 0, ANum 1])
       (controllers (parseEventListeners (new ''Gtk.Label'' [])
          (no_listeners\<lparr>onScrollUp := Some up, onScrollDown := Some down_cb\<rparr>)))
     = [[(''down'', [ANum 0, ANum 1])]]
   \<and> map (\<lambda>c. emit ''scroll'' c [ANum (- 1), ANum 0])
       (controllers (parseEventListeners (new ''Gtk.Label'' [])
          (no_listeners\<lparr>onScrollUp := Some up, onScrollDown := Some down_cb\<rparr>)))
     = [[(cb_name up, [ANum (- 1), ANum 0])]]"
  unfolding sample_scroll_controllers
  by (simp add: emit_def has_result_def scrollUp_handler_def scrollDown_handler_def handleEvent_def
      down_cb_def)

section \<open>Properties of the property pass\<close>

lemma controllers_invoke:
  "controllers (invoke m a w) =
     controllers w @ (case a of [JNative c] \<Rightarrow> (if m = ''add_controller'' then [c] else []) | _ \<Rightarrow> [])"
  by (simp add: controllers_def invoke_def)

lemma controllers_invoke_other [simp]:
  "m \<noteq> ''add_controller'' \<Longrightarrow> controllers (invoke m a w) = controllers w"
  by (simp add: controllers_invoke split: list.splits jsval.splits)

lemma controllers_assign [simp]: "controllers (assign f v w) = controllers w"
proof -
  have "f @ ''='' \<noteq> ''add_controller''"
  proof
    assume "f @ ''='' = ''add_controller''"
    then have "last (f @ ''='') = last ''add_controller''" by simp
    then show False by simp
  qed
  then show ?thesis by (simp add: assign_def)
qed

lemma controllers_foldl:
  assumes "\<And>w x. controllers (f w x) = controllers w"
  shows "controllers (foldl f w xs) = controllers w"
  by (induction xs arbitrary: w) (simp_all add: assms)

lemma controllers_add_classes [simp]: "controllers (add_classes c w) = controllers w"
  unfolding add_classes_def by (rule controllers_foldl) simp

lemma controllers_setStyle [simp]: "controllers (setStyle w css) = controllers w"
  by (simp add: setStyle_def Let_def)

lemma controllers_try_assign_enum [simp]:
  "controllers (fst (try_assign_enum e f en tok msg w tr)) = controllers w"
  by (simp add: try_assign_enum_def Let_def split: jsval.splits)

lemma controllers_connect_one [simp]: "controllers (fst (connect_one c wt)) = controllers (fst wt)"
  by (simp add: connect_one_def split_beta split: conn_source.splits)

lemma controllers_connect_all [simp]:
  "controllers (fst (foldl (\<lambda>wt c. connect_one c wt) wt cs)) = controllers (fst wt)"
  by (induction cs arbitrary: wt) simp_all

lemma controllers_properties [simp]:
  "controllers (foldl (\<lambda>w (key, v). assign (''_'' @ key) (of_prim v) w) w ps) = controllers w"
  by (rule controllers_foldl) (simp add: split_beta)

lemma controllers_when_some:
  "(\<And>a w. controllers (f a w) = controllers w) \<Longrightarrow> controllers (when_some x f w) = controllers w"
  by (cases x) (simp_all add: when_some_def)

lemma controllers_fst_when_some:
  "(\<And>a wt. controllers (fst (f a wt)) = controllers (fst wt)) \<Longrightarrow>
   controllers (fst (when_some x f wt)) = controllers (fst wt)"
  by (cases x) (simp_all add: when_some_def)

lemma adds_no_setup_when_some:
  "(\<And>a wt. adds_no_setup (snd wt) (snd (f a wt))) \<Longrightarrow>
   adds_no_setup (snd wt) (snd (when_some x f wt))"
  by (cases x) (simp_all add: when_some_def adds_no_setup_def)

lemma adds_no_setup_refl [simp]: "adds_no_setup tr tr"
  by (simp add: adds_no_setup_def)

lemma adds_no_setup_trans: "adds_no_setup a b \<Longrightarrow> adds_no_setup b c \<Longrightarrow> adds_no_setup a c"
  unfolding adds_no_setup_def by (metis append.assoc filter_append append_Nil2)

lemma adds_no_setup_typecheck [simp]: "adds_no_setup tr (typecheck n v ks c tr)"
  by (simp add: adds_no_setup_def typecheck_def is_setup_def)

lemma adds_no_setup_typecheck' [simp]:
  "adds_no_setup tr tr' \<Longrightarrow> adds_no_setup tr (typecheck n v ks c tr')"
  using adds_no_setup_trans adds_no_setup_typecheck by blast

lemma adds_no_setup_try_assign_enum [simp]:
  "adds_no_setup tr (snd (try_assign_enum e f en tok msg w tr))"
  by (simp add: adds_no_setup_def try_assign_enum_def warning_def is_setup_def Let_def
      split: jsval.splits)

lemma adds_no_setup_connect_one: "adds_no_setup (snd wt) (snd (connect_one c wt))"
  by (simp add: adds_no_setup_def connect_one_def is_setup_def split_beta split: conn_source.splits)

lemma adds_no_setup_connect_all:
  "adds_no_setup (snd wt) (snd (foldl (\<lambda>wt c. connect_one c wt) wt cs))"
proof (induction cs arbitrary: wt)
  case Nil
  show ?case by simp
next
  case (Cons c cs)
  show ?case
    using adds_no_setup_trans [OF adds_no_setup_connect_one [of wt c] Cons.IH [of "connect_one c wt"]]
    by simp
qed

text \<open>The property pass: it attaches no controller, and what it leaves behind is what was
  there, then effects that are no call of \<^verbatim>\<open>setup\<close>, then the call of \<^verbatim>\<open>setup\<close> if the
  descriptor has one, with the object as the pass leaves it.\<close>

lemma parseParams_summary:
  "controllers (fst (parseParams e w0 t wp tr0)) = controllers w0
   \<and> (\<exists>mid. snd (parseParams e w0 t wp tr0) =
         tr0 @ mid @ (case setup_cb wp of None \<Rightarrow> []
                      | Some f \<Rightarrow> [SetupCall (cb_name f) (fst (parseParams e w0 t wp tr0))])
       \<and> filter is_setup mid = [])"
proof -
  let ?ty = "type_to_string t"
  let ?vis = "(case visible wp of None \<Rightarrow> True | Some b \<Rightarrow> b)"
  let ?T =
    "typecheck ''visible'' (JBool ?vis) [''boolean''] ?ty
      (typecheck ''vexpand'' (opt_js JBool (vexpand wp)) [''boolean'', ''undefined''] ?ty
      (typecheck ''hexpand'' (opt_js JBool (hexpand wp)) [''boolean'', ''undefined''] ?ty
      (typecheck ''valign'' (opt_js JStr (valign wp)) [''string'', ''undefined''] ?ty
      (typecheck ''halign'' (opt_js JStr (halign wp)) [''string'', ''undefined''] ?ty
      (typecheck ''tooltip'' (opt_js JStr (tooltip wp)) [''string'', ''undefined''] ?ty
      (typecheck ''sensitive'' (opt_js JBool (sensitive wp)) [''boolean'', ''undefined''] ?ty
      (typecheck ''style'' (opt_js JStr (style wp)) [''string'', ''undefined''] ?ty
      (typecheck ''className'' (opt_js JStr (className wp)) [''string'', ''undefined''] ?ty
         tr0))))))))"
  let ?W2 = "when_some (className wp) add_classes
               (assign ''toggleClassName'' (JClosure ''toggleClassName'')
                 (assign ''setStyle'' (JClosure ''setStyle'') w0))"
  let ?H = "when_some (halign wp)
              (\<lambda>a (w, tr). try_assign_enum e ''halign'' ''Align'' (JStr a) ''wrong halign value'' w tr)
              (?W2, ?T)"
  let ?V = "when_some (valign wp)
              (\<lambda>a (w, tr). try_assign_enum e ''valign'' ''Align'' (JStr a) ''wrong valign value'' w tr)
              ?H"
  let ?W11 = "when_some (properties wp)
                (\<lambda>ps w. foldl (\<lambda>w (key, v). assign (''_'' @ key) (of_prim v) w) w ps)
                (assign ''visible'' (JBool ?vis)
                  (when_some (style wp) (\<lambda>css w. setStyle w css)
                    (when_some (tooltip wp) (\<lambda>s. invoke ''set_tooltip_text'' [JStr s])
                      (when_some (sensitive wp) (\<lambda>b. assign ''sensitive'' (JBool b))
                        (when_some (vexpand wp) (\<lambda>b. assign ''vexpand'' (JBool b))
                          (when_some (hexpand wp) (\<lambda>b. assign ''hexpand'' (JBool b)) (fst ?V)))))))"
  let ?C = "when_some (connections wp) (\<lambda>cs wt. foldl (\<lambda>wt c. connect_one c wt) wt cs)
              (?W11, snd ?V)"
  have pp: "parseParams e w0 t wp tr0 =
      (fst ?C, when_some (setup_cb wp) (\<lambda>f tr. tr @ [SetupCall (cb_name f) (fst ?C)]) (snd ?C))"
    by (simp add: parseParams_def Let_def split_beta)
  have c2: "controllers ?W2 = controllers w0" by (simp add: controllers_when_some)
  have cH: "controllers (fst ?H) = controllers w0"
    using c2 controllers_fst_when_some [where wt = "(?W2, ?T)" and x = "halign wp"] by (simp add: split_beta)
  have cV: "controllers (fst ?V) = controllers w0"
    using cH controllers_fst_when_some [where wt = ?H and x = "valign wp"] by (simp add: split_beta)
  have c11: "controllers ?W11 = controllers w0"
    using cV by (simp add: controllers_when_some controllers_foldl split_beta)
  have cC: "controllers (fst ?C) = controllers w0"
    using c11 controllers_fst_when_some [where wt = "(?W11, snd ?V)" and x = "connections wp"] by simp
  have tT: "adds_no_setup tr0 ?T" by simp
  have tH: "adds_no_setup tr0 (snd ?H)"
    using adds_no_setup_trans [OF tT, of "snd ?H"]
      adds_no_setup_when_some [where wt = "(?W2, ?T)" and x = "halign wp"]
    by (simp add: split_beta)
  have tV: "adds_no_setup tr0 (snd ?V)"
    using adds_no_setup_trans [OF tH, of "snd ?V"]
      adds_no_setup_when_some [where wt = ?H and x = "valign wp"]
    by (simp add: split_beta)
  have tC: "adds_no_setup tr0 (snd ?C)"
    using adds_no_setup_trans [OF tV, of "snd ?C"]
      adds_no_setup_when_some [where wt = "(?W11, snd ?V)" and x = "connections wp"]
    by (simp add: adds_no_setup_connect_all)
  then obtain mid where mid: "snd ?C = tr0 @ mid" "filter is_setup mid = []"
    unfolding adds_no_setup_def by blast
  have "snd (parseParams e w0 t wp tr0) =
         tr0 @ mid @ (case setup_cb wp of None \<Rightarrow> []
                      | Some f \<Rightarrow> [SetupCall (cb_name f) (fst (parseParams e w0 t wp tr0))])"
    unfolding pp using mid(1) by (cases "setup_cb wp") (simp_all add: when_some_def)
  moreover have "controllers (fst (parseParams e w0 t wp tr0)) = controllers w0"
    unfolding pp using cC by simp
  ultimately show ?thesis using mid(2) by blast
qed

lemma controllers_apply_passes:
  "map kind (controllers (fst (apply_passes e w t wp ls tr))) =
     map kind (controllers w)
     @ (if onFocusLeave ls \<noteq> None \<or> onFocusEnter ls \<noteq> None then [''Gtk.EventControllerFocus''] else [])
     @ (if onKeyReleased ls \<noteq> None \<or> onKeyPressed ls \<noteq> None then [''Gtk.EventControllerKey''] else [])
     @ (if onMotion ls \<noteq> None \<or> onHoverLeave ls \<noteq> None \<or> onHoverEnter ls \<noteq> None
        then [''Gtk.EventControllerMotion''] else [])
     @ (if onScroll ls \<noteq> None \<or> onScrollUp ls \<noteq> None \<or> onScrollDown ls \<noteq> None
        then [''Gtk.EventControllerScroll''] else [])
     @ (if onButtonPressed ls \<noteq> None \<or> onButtonReleased ls \<noteq> None
        then [''Gtk.EventControllerLegacy''] else [])"
  using parseParams_summary [of e w t wp tr]
  by (simp add: apply_passes_def split_beta kinds_parseEventListeners del: not_None_eq)

text \<open>The constructors of the registry other than the slider attach no controller.\<close>

lemma for_each_keeps:
  assumes "\<And>x c t. \<not> isl (snd (snd (f x c t))) \<Longrightarrow>
             controllers (projr (snd (snd (f x c t)))) = controllers c"
    and "\<not> isl (snd (snd (for_each f xs c t)))"
  shows "controllers (projr (snd (snd (for_each f xs c t)))) = controllers c"
  using assms(2)
proof (induction xs arbitrary: c t)
  case Nil
  then show ?case by simp
next
  case (Cons x xs)
  obtain x' tr' r where fx: "f x c t = (x', tr', r)" by (cases "f x c t") auto
  show ?case
  proof (cases r)
    case (Inl err)
    then show ?thesis using Cons.prems fx by simp
  next
    case (Inr c1)
    have c1: "controllers c1 = controllers c" using assms(1) [of x c t] fx Inr by simp
    have "\<not> isl (snd (snd (for_each f xs c1 tr')))"
      using Cons.prems fx Inr by (simp add: split_beta)
    from Cons.IH [OF this] show ?thesis using fx Inr c1 by (simp add: split_beta)
  qed
qed

lemma set_child_if_keeps:
  "\<not> isl (snd (snd (set_child_if W b c tr))) \<Longrightarrow>
   controllers (projr (snd (snd (set_child_if W b c tr)))) = controllers c"
  by (simp add: set_child_if_def Let_def split_beta sum.case_eq_if split: if_splits)

lemma append_item_keeps:
  "\<not> isl (snd (snd (append_item W x c tr))) \<Longrightarrow>
   controllers (projr (snd (snd (append_item W x c tr)))) = controllers c"
  by (simp add: append_item_def split_beta sum.case_eq_if split: if_splits)

lemma stack_item_keeps:
  "\<not> isl (snd (snd (stack_item W x c tr))) \<Longrightarrow>
   controllers (projr (snd (snd (stack_item W x c tr)))) = controllers c"
  by (cases "js_iter x")
     (simp_all add: stack_item_def Let_def split_beta sum.case_eq_if split: if_splits)

lemma overlay_item_keeps:
  "\<not> isl (snd (snd (overlay_item W x c tr))) \<Longrightarrow>
   controllers (projr (snd (snd (overlay_item W x c tr)))) = controllers c"
  by (simp add: overlay_item_def Let_def split_beta sum.case_eq_if split: if_splits)

lemma try_assign_enum_shadowed_keeps:
  "\<not> isl (try_assign_enum_shadowed e f en tok w) \<Longrightarrow>
   controllers (projr (try_assign_enum_shadowed e f en tok w)) = controllers w"
  by (cases tok) (simp_all add: try_assign_enum_shadowed_def Let_def split: if_splits)

lemma Box_controllers:
  assumes "\<not> isl (snd (snd (Box W e ty b tr)))"
  shows "controllers (projr (snd (snd (Box W e ty b tr)))) = []"
proof -
  have k: "\<not> isl (snd (snd (for_each (append_item W) xs c t))) \<Longrightarrow>
      controllers (projr (snd (snd (for_each (append_item W) xs c t)))) = controllers c" for xs c t
    by (rule for_each_keeps) (rule append_item_keeps)
  show ?thesis
    using assms
    by (simp add: Box_def Let_def split_beta sum.case_eq_if k split: if_splits)
qed

lemma Button_controllers:
  assumes "\<not> isl (snd (snd (Button W e ty b tr)))"
  shows "controllers (projr (snd (snd (Button W e ty b tr)))) = []"
  using assms
  by (simp add: Button_def Let_def split_beta sum.case_eq_if set_child_if_keeps split: if_splits)

lemma CenterBox_controllers:
  assumes "\<not> isl (snd (snd (CenterBox W e ty b tr)))"
  shows "controllers (projr (snd (snd (CenterBox W e ty b tr)))) = []"
  using assms
  by (simp add: CenterBox_def Let_def split_beta sum.case_eq_if split: if_splits)

lemma Entry_controllers: "\<not> isl (snd (Entry e ty b tr)) \<Longrightarrow> controllers (projr (snd (Entry e ty b tr))) = []"
  by (simp add: Entry_def Let_def)

lemma Icon_controllers: "\<not> isl (snd (Icon e ty b tr)) \<Longrightarrow> controllers (projr (snd (Icon e ty b tr))) = []"
  by (simp add: Icon_def Let_def)

lemma Label_controllers: "\<not> isl (snd (Label e ty b tr)) \<Longrightarrow> controllers (projr (snd (Label e ty b tr))) = []"
  by (simp add: Label_def Let_def split_beta)

lemma Switch_controllers: "\<not> isl (snd (Switch e ty b tr)) \<Longrightarrow> controllers (projr (snd (Switch e ty b tr))) = []"
  by (simp add: Switch_def Let_def)

lemma Overlay_controllers:
  assumes "\<not> isl (snd (snd (Overlay W e ty b tr)))"
  shows "controllers (projr (snd (snd (Overlay W e ty b tr)))) = []"
proof -
  have k: "\<not> isl (snd (snd (for_each (overlay_item W) xs c t))) \<Longrightarrow>
      controllers (projr (snd (snd (for_each (overlay_item W) xs c t)))) = controllers c" for xs c t
    by (rule for_each_keeps) (rule overlay_item_keeps)
  show ?thesis
    using assms
    by (simp add: Overlay_def Let_def split_beta sum.case_eq_if k set_child_if_keeps split: if_splits)
qed

lemma Revealer_controllers:
  assumes "\<not> isl (snd (snd (Revealer W e ty b tr)))"
  shows "controllers (projr (snd (snd (Revealer W e ty b tr)))) = []"
  using assms
  by (simp add: Revealer_def Let_def split_beta sum.case_eq_if set_child_if_keeps
      try_assign_enum_shadowed_keeps split: if_splits)

lemma Scrollable_controllers:
  assumes "\<not> isl (snd (snd (Scrollable W e ty b tr)))"
  shows "controllers (projr (snd (snd (Scrollable W e ty b tr)))) = []"
  using assms
  by (cases "dflt (JStr ''automatic'') (get b ''hscroll'')";
      cases "dflt (JStr ''automatic'') (get b ''vscroll'')")
     (simp_all add: Scrollable_def Let_def split_beta sum.case_eq_if set_child_if_keeps split: if_splits)

lemma Stack_controllers:
  assumes "\<not> isl (snd (snd (Stack W e ty b tr)))"
  shows "controllers (projr (snd (snd (Stack W e ty b tr)))) = []"
proof -
  have k: "\<not> isl (snd (snd (for_each (stack_item W) xs c t))) \<Longrightarrow>
      controllers (projr (snd (snd (for_each (stack_item W) xs c t)))) = controllers c" for xs c t
    by (rule for_each_keeps) (rule stack_item_keeps)
  show ?thesis
    using assms
    by (simp add: Stack_def Let_def split_beta sum.case_eq_if k try_assign_enum_shadowed_keeps
        split: if_splits)
qed

lemma widgets_controllers:
  assumes "type \<noteq> ''slider''" and "\<not> isl (snd (snd (widgets W e type b tr)))"
  shows "controllers (projr (snd (snd (widgets W e type b tr)))) = []"
  using assms Box_controllers [of W e type b tr] Button_controllers [of W e type b tr]
    CenterBox_controllers [of W e type b tr] Entry_controllers [of e type b tr]
    Icon_controllers [of e type b tr] Label_controllers [of e type b tr]
    Overlay_controllers [of W e type b tr] Revealer_controllers [of W e type b tr]
    Scrollable_controllers [of W e type b tr] Stack_controllers [of W e type b tr]
    Switch_controllers [of e type b tr]
  by (simp add: widgets_def leaf_def split: if_splits)

text \<open>The slider is built by a call of \<^verbatim>\<open>Widget\<close> with an \<^verbatim>\<open>onScroll\<close> of its own: what its
  constructor returns carries a scroll controller already.\<close>

lemma Slider_controllers:
  assumes "\<not> isl (snd (Slider e type b tr))"
  shows "map kind (controllers (projr (snd (Slider e type b tr)))) = [''Gtk.EventControllerScroll'']"
  using assms
  by (simp add: Slider_def Let_def split_beta controllers_apply_passes no_listeners_def
      split: if_splits)

lemma Widget_registry:
  assumes "Widget e (JObj (TString type) wp ls b) tr = (d', tr', Inr w)" and "in_widgets type"
  shows "\<not> isl (snd (snd (widgets (Widget e) e type b tr)))
       \<and> d' = JObj (TString type) wp ls (fst (widgets (Widget e) e type b tr))
       \<and> (w, tr') = apply_passes e (projr (snd (snd (widgets (Widget e) e type b tr))))
                      (TString type) wp ls (fst (snd (widgets (Widget e) e type b tr)))"
proof -
  obtain b1 tr1 r1 where ws: "widgets (Widget e) e type b tr = (b1, tr1, r1)"
    by (cases "widgets (Widget e) e type b tr") auto
  show ?thesis
  proof (cases r1)
    case (Inl err)
    then show ?thesis using assms ws by (simp add: truthy_def)
  next
    case (Inr w1)
    then show ?thesis using assms ws by (auto simp: truthy_def split_beta)
  qed
qed

lemma Widget_factory:
  assumes "Widget e (JObj (TFactory n x) wp ls b) tr = (d', tr', Inr w)"
  shows "d' = JObj (TFactory n x) wp ls b \<and> (w, tr') = apply_passes e x (TFactory n x) wp ls tr"
  using assms by (auto simp: truthy_def split_beta)

lemma count_list_if: "count_list (if b then [x] else []) k = (if b \<and> x = k then 1 else 0)"
  by (cases b) auto

lemma count_families:
  assumes "map kind (controllers w0) = []"
  shows "count_list (map kind (controllers (fst (apply_passes e w0 t wp ls tr)))) k =
           (if populated k ls then 1 else 0)"
  unfolding controllers_apply_passes assms populated_def count_list_append count_list_if
  by (auto simp del: not_None_eq)

section \<open>The setup callback\<close>

lemma Widget_label:
  "Widget e (JObj (TString ''label'') wp ls b) tr =
     (case Label e ''label'' b tr of
        (tr1, Inl err) \<Rightarrow> (JObj (TString ''label'') wp ls b, tr1, Inl err)
      | (tr1, Inr w1) \<Rightarrow>
          (case apply_passes e w1 (TString ''label'') wp ls tr1 of
             (w', tr2) \<Rightarrow> (JObj (TString ''label'') wp ls b, tr2, Inr w')))"
  by (simp add: truthy_def in_widgets_def widgets_keys_def widgets_def leaf_def
      split: prod.splits sum.splits)

lemma gtk_justification_center: "enum_lookup (gtk s) ''Justification'' ''CENTER'' = JEnum ''Justification'' ''CENTER'' 2"
  by (simp add: enum_lookup_def gtk_def gtk_members_def gtk_enums_def)

lemma Widget_sample_label:
  "Widget (gtk True) sample_label [] =
     (sample_label,
      [SetupCall ''setup''
         (Native ''Gtk.Label''
            [(''label'', JStr ''hi''), (''use_markup'', JBool False), (''max_width_chars'', JNum (- 1)),
             (''wrap'', JBool False), (''xalign'', JNum (1 / 2)), (''yalign'', JNum (1 / 2))]
            [(''justify='', [JEnum ''Justification'' ''CENTER'' 2]),
             (''setStyle='', [JClosure ''setStyle'']),
             (''toggleClassName='', [JClosure ''toggleClassName'']),
             (''add_css_class'', [JStr ''big'']),
             (''visible='', [JBool True])])],
      Inr (Native ''Gtk.Label''
            [(''label'', JStr ''hi''), (''use_markup'', JBool False), (''max_width_chars'', JNum (- 1)),
             (''wrap'', JBool False), (''xalign'', JNum (1 / 2)), (''yalign'', JNum (1 / 2))]
            [(''justify='', [JEnum ''Justification'' ''CENTER'' 2]),
             (''setStyle='', [JClosure ''setStyle'']),
             (''toggleClassName='', [JClosure ''toggleClassName'']),
             (''add_css_class'', [JStr ''big'']),
             (''visible='', [JBool True]),
             (''add_controller'',
              [JNative (Native ''Gtk.EventControllerFocus'' []
                 [(''connect'', [JStr ''enter'', JHandler (no_args_handler up_cb)])])])]))"
  unfolding sample_label_def Widget_label
  by (simp add: Label_def Let_def split_beta get_def dflt_def typecheck_def kind_of_def js_or_def
      truthy_def restcheck_def rest_of_def try_assign_enum_def gtk_justification_center
      toUpperCase_def rejected_def apply_passes_def parseParams_def when_some_def no_wprops_def
      no_listeners_def type_to_string_def opt_js_def a_setup_def add_classes_def
      assign_def invoke_def new_def parseEventListeners_def connect_if_def)

text \<open>
  Claim C3, as stated, on a label with a class, a \<^verbatim>\<open>setup\<close> and \<^verbatim>\<open>onFocusEnter\<close>: the
  object \<^verbatim>\<open>setup\<close> is called with has no controller yet; the focus controller is
  attached afterwards.
\<close>

theorem setup_before_event_wiring:
  "(case Widget (gtk True) sample_label [] of
      (d, tr, Inr w) \<Rightarrow>
        (case last tr of
           SetupCall n snap \<Rightarrow>
             controllers snap = [] \<and> map kind (controllers w) = [''Gtk.EventControllerFocus'']
         | _ \<Rightarrow> False)
    | _ \<Rightarrow> False)"
  unfolding Widget_sample_label
  by (simp add: controllers_def)

text \<open>
  Claim C3, amended. For a structured descriptor with a \<^verbatim>\<open>setup\<close> callback whose type is
  a factory or is found in the registry, when the build gives a live object: let \<open>w0\<close> be
  the object the factory or the constructor returned and \<open>tr0\<close> the effects up to then.
  The effects of the build are \<open>tr0\<close>, then effects none of which is a call of
  \<^verbatim>\<open>setup\<close>, then one call of \<^verbatim>\<open>setup\<close>, the last effect of the build. Its only
  argument is the object as the whole property pass leaves \<open>w0\<close> (classes, alignment,
  flags, tooltip, style, custom properties and connections applied), and the object
  returned is that object after the event pass. So \<^verbatim>\<open>setup\<close> is called exactly once for the
  descriptor, after every property and connection of the descriptor is applied and before
  its event controllers are attached.
\<close>

theorem setup_after_properties:
  assumes "Widget e (JObj t wp ls b) tr = (d', tr', Inr w)"
    and "setup_cb wp = Some f"
    and "case t of TMissing \<Rightarrow> False | TString type \<Rightarrow> in_widgets type | TFactory n x \<Rightarrow> True"
  shows "\<exists>w0 tr0 mid snap.
           (case t of
              TFactory n x \<Rightarrow> w0 = x \<and> tr0 = tr
            | TString type \<Rightarrow> snd (widgets (Widget e) e type b tr) = (tr0, Inr w0)
            | TMissing \<Rightarrow> False)
         \<and> parseParams e w0 t wp tr0 = (snap, tr')
         \<and> tr' = tr0 @ mid @ [SetupCall (cb_name f) snap]
         \<and> filter is_setup mid = []
         \<and> w = parseEventListeners snap ls"
proof -
  have passes: "\<exists>mid snap. parseParams e w0 t wp tr0 = (snap, tr')
         \<and> tr' = tr0 @ mid @ [SetupCall (cb_name f) snap]
         \<and> filter is_setup mid = []
         \<and> w = parseEventListeners snap ls"
    if "(w, tr') = apply_passes e w0 t wp ls tr0" for w0 tr0
  proof -
    from that have w: "w = parseEventListeners (fst (parseParams e w0 t wp tr0)) ls"
      and tr': "tr' = snd (parseParams e w0 t wp tr0)"
      by (simp_all add: apply_passes_def split_beta)
    from parseParams_summary [of e w0 t wp tr0] assms(2)
    obtain mid where "snd (parseParams e w0 t wp tr0) =
        tr0 @ mid @ [SetupCall (cb_name f) (fst (parseParams e w0 t wp tr0))]"
      and "filter is_setup mid = []" by auto
    then show ?thesis using w tr' by (auto simp: prod_eq_iff)
  qed
  show ?thesis
  proof (cases t)
    case TMissing
    with assms(3) show ?thesis by simp
  next
    case (TString type)
    with assms(3) have ty: "in_widgets type" by simp
    let ?r = "widgets (Widget e) e type b tr"
    from Widget_registry [OF assms(1) [unfolded TString] ty]
    have ok: "\<not> isl (snd (snd ?r))"
      and ap: "(w, tr') = apply_passes e (projr (snd (snd ?r))) t wp ls (fst (snd ?r))"
      by (simp_all add: TString)
    have r: "snd ?r = (fst (snd ?r), Inr (projr (snd (snd ?r))))"
      using ok by (simp add: prod_eq_iff)
    from passes [OF ap] r show ?thesis unfolding TString by auto
  next
    case (TFactory n x)
    from Widget_factory [OF assms(1) [unfolded TFactory]]
    have ap: "(w, tr') = apply_passes e x t wp ls tr" by (simp add: TFactory)
    from passes [OF ap] show ?thesis unfolding TFactory by auto
  qed
qed

theorem setup_after_properties_witness:
  "\<exists>w0 tr0 mid snap.
      snd (widgets (Widget (gtk True)) (gtk True) ''label'' [(''label'', JStr ''hi'')] []) = (tr0, Inr w0)
      \<and> parseParams (gtk True) w0 (TString ''label'')
          (no_wprops\<lparr>className := Some ''big'', setup_cb := Some a_setup\<rparr>) tr0
          = (snap, fst (snd (Widget (gtk True) sample_label [])))
      \<and> fst (snd (Widget (gtk True) sample_label [])) = tr0 @ mid @ [SetupCall ''setup'' snap]
      \<and> filter is_setup mid = []
      \<and> snd (snd (Widget (gtk True) sample_label []))
          = Inr (parseEventListeners snap (no_listeners\<lparr>onFocusEnter := Some up_cb\<rparr>))"
proof -
  obtain d' tr' w where W: "Widget (gtk True) sample_label [] = (d', tr', Inr w)"
    using Widget_sample_label by blast
  have "\<exists>w0 tr0 mid snap.
           (case TString ''label'' of
              TFactory n x \<Rightarrow> w0 = x \<and> tr0 = []
            | TString type \<Rightarrow>
                snd (widgets (Widget (gtk True)) (gtk True) type [(''label'', JStr ''hi'')] []) = (tr0, Inr w0)
            | TMissing \<Rightarrow> False)
         \<and> parseParams (gtk True) w0 (TString ''label'')
              (no_wprops\<lparr>className := Some ''big'', setup_cb := Some a_setup\<rparr>) tr0 = (snap, tr')
         \<and> tr' = tr0 @ mid @ [SetupCall (cb_name a_setup) snap]
         \<and> filter is_setup mid = []
         \<and> w = parseEventListeners snap (no_listeners\<lparr>onFocusEnter := Some up_cb\<rparr>)"
    by (rule setup_after_properties [where e = "gtk True" and t = "TString ''label''"
            and b = "[(''label'', JStr ''hi'')]" and tr = "[]" and d' = d'])
       (use W in \<open>simp_all add: sample_label_def no_wprops_def in_widgets_def widgets_keys_def\<close>)
  then show ?thesis
    unfolding W by (simp add: a_setup_def)
qed

section \<open>Controllers of a built widget\<close>

text \<open>The slider: whatever the slots of its descriptor, the widget carries one scroll
  controller more, the one of its constructor.\<close>

lemma Widget_slider_controllers:
  assumes "Widget e (JObj (TString ''slider'') wp ls b) tr = (d', tr', Inr w)"
  shows "count_list (map kind (controllers w)) k =
           (if k = ''Gtk.EventControllerScroll'' then 1 else 0) + (if populated k ls then 1 else 0)"
proof -
  have iw: "in_widgets ''slider''" by (simp add: in_widgets_def widgets_keys_def)
  let ?r = "widgets (Widget e) e ''slider'' b tr"
  from Widget_registry [OF assms iw]
  have ok: "\<not> isl (snd (snd ?r))"
    and w: "w = fst (apply_passes e (projr (snd (snd ?r))) (TString ''slider'') wp ls (fst (snd ?r)))"
    by (simp_all add: prod_eq_iff)
  have r: "snd (snd ?r) = snd (Slider e ''slider'' b tr)" by (simp add: widgets_def leaf_def)
  have "map kind (controllers (projr (snd (snd ?r)))) = [''Gtk.EventControllerScroll'']"
    using ok unfolding r by (rule Slider_controllers)
  then show ?thesis
    unfolding w controllers_apply_passes populated_def count_list_append count_list_if
    by (auto simp del: not_None_eq)
qed

lemma Slider_default: "\<not> isl (snd (Slider (gtk True) ''slider'' [] []))"
  by (simp add: Slider_def Let_def split_beta get_def dflt_def orientation_of_def enum_lookup_def
      gtk_def gtk_members_def gtk_enums_def toUpperCase_def rejected_def)

lemma Widget_slider_default:
  "\<not> isl (snd (snd (Widget (gtk True) (JObj (TString ''slider'') no_wprops no_listeners []) [])))"
  using Slider_default
  by (simp add: truthy_def in_widgets_def widgets_keys_def widgets_def leaf_def split_beta
      sum.case_eq_if)

text \<open>
  Claim C7, as stated, at the descriptor \<^verbatim>\<open>{ type: 'slider' }\<close>: no slot of the scroll
  family is populated and the widget carries one scroll controller, the one the
  constructor of the slider had the engine attach. And at a descriptor with \<^verbatim>\<open>onScroll\<close>
  whose type is unknown: a slot of the scroll family is populated and the placeholder
  label carries no controller.
\<close>

theorem slider_scroll_controller:
  "(case Widget (gtk True) (JObj (TString ''slider'') no_wprops no_listeners []) [] of
      (d, tr, Inr w) \<Rightarrow> count_list (map kind (controllers w)) ''Gtk.EventControllerScroll'' = 1
    | _ \<Rightarrow> False)
   \<and> \<not> populated ''Gtk.EventControllerScroll'' no_listeners
   \<and> (case Widget (gtk True)
              (JObj (TString ''gauge'') no_wprops (no_listeners\<lparr>onScroll := Some quiet_cb\<rparr>) []) [] of
        (d, tr, Inr w) \<Rightarrow> controllers w = []
      | _ \<Rightarrow> False)
   \<and> populated ''Gtk.EventControllerScroll'' (no_listeners\<lparr>onScroll := Some quiet_cb\<rparr>)"
proof -
  obtain d tr r where W: "Widget (gtk True) (JObj (TString ''slider'') no_wprops no_listeners []) []
      = (d, tr, r)" by (metis prod_cases3)
  then obtain w where r: "r = Inr w" using Widget_slider_default by (cases r) simp_all
  have p: "\<not> populated ''Gtk.EventControllerScroll'' no_listeners"
    by (simp add: populated_def no_listeners_def)
  have 1: "count_list (map kind (controllers w)) ''Gtk.EventControllerScroll'' = 1"
    using Widget_slider_controllers [OF W [unfolded r], of "''Gtk.EventControllerScroll''"] p by simp
  have 2: "Widget (gtk True)
              (JObj (TString ''gauge'') no_wprops (no_listeners\<lparr>onScroll := Some quiet_cb\<rparr>) []) []
         = (JObj (TString ''gauge'') no_wprops (no_listeners\<lparr>onScroll := Some quiet_cb\<rparr>) [],
            [Error ''There is no widget with type gauge''],
            Inr (new ''Gtk.Label'' [(''label'', JStr ''gauge doesn't exist'')]))"
    by (simp add: truthy_def in_widgets_def widgets_keys_def object_prototype_keys_def
        no_such_widget_def error_def type_to_string_def)
  show ?thesis
    unfolding W r 2 using 1 p by (simp add: populated_def no_listeners_def)
qed

text \<open>
  Claim C7, amended. For every widget built from a structured descriptor whose type is a
  key of the registry other than \<^verbatim>\<open>slider\<close>, or a factory whose object carries no controller,
  and for every controller family: exactly one controller of the family is attached to the
  widget when at least one slot of the family is populated, and none otherwise, however
  many of its slots are populated.
\<close>

theorem one_controller_per_family:
  assumes "Widget e (JObj t wp ls b) tr = (d', tr', Inr w)"
    and "case t of TString type \<Rightarrow> in_widgets type \<and> type \<noteq> ''slider''
         | TFactory n x \<Rightarrow> controllers x = [] | TMissing \<Rightarrow> False"
  shows "count_list (map kind (controllers w)) k = (if populated k ls then 1 else 0)"
proof (cases t)
  case TMissing
  with assms(2) show ?thesis by simp
next
  case (TString type)
  with assms(2) have ty: "in_widgets type" "type \<noteq> ''slider''" by simp_all
  let ?r = "widgets (Widget e) e type b tr"
  from Widget_registry [OF assms(1) [unfolded TString] ty(1)]
  have ok: "\<not> isl (snd (snd ?r))"
    and w: "w = fst (apply_passes e (projr (snd (snd ?r))) (TString type) wp ls (fst (snd ?r)))"
    by (simp_all add: prod_eq_iff)
  have "controllers (projr (snd (snd ?r))) = []" by (rule widgets_controllers [OF ty(2) ok])
  then show ?thesis unfolding w by (simp add: count_families)
next
  case (TFactory n x)
  with assms(2) have x: "controllers x = []" by simp
  from Widget_factory [OF assms(1) [unfolded TFactory]]
  have w: "w = fst (apply_passes e x (TFactory n x) wp ls tr)" by (simp add: prod_eq_iff)
  show ?thesis unfolding w using x by (simp add: count_families)
qed

theorem one_controller_per_family_witness:
  "count_list (map kind (controllers (projr (snd (snd (Widget (gtk True) sample_label []))))))
     ''Gtk.EventControllerFocus'' = 1
   \<and> count_list (map kind (controllers (projr (snd (snd (Widget (gtk True) sample_label []))))))
     ''Gtk.EventControllerScroll'' = 0"
proof -
  obtain d' tr' w where W: "Widget (gtk True) sample_label [] = (d', tr', Inr w)"
    using Widget_sample_label by blast
  have t: "case TString ''label'' of TString type \<Rightarrow> in_widgets type \<and> type \<noteq> ''slider''
         | TFactory n x \<Rightarrow> controllers x = [] | TMissing \<Rightarrow> False"
    by (simp add: in_widgets_def widgets_keys_def)
  show ?thesis
    using one_controller_per_family [OF W [unfolded sample_label_def] t, of "''Gtk.EventControllerFocus''"]
      one_controller_per_family [OF W [unfolded sample_label_def] t, of "''Gtk.EventControllerScroll''"]
    unfolding W by (simp add: populated_def no_listeners_def)
qed

section \<open>Properties of the construction engine\<close>

lemma proto_in_widgets: "in_widgets ''__proto__'' \<and> ''__proto__'' \<notin> set widgets_keys"
  by (simp add: in_widgets_def widgets_keys_def object_prototype_keys_def)

text \<open>What the claim C4 describes does hold for a type that is neither a key of the
  registry nor a key inherited from \<^verbatim>\<open>Object.prototype\<close>.\<close>

lemma Widget_unknown_type:
  assumes "\<not> in_widgets type"
  shows "Widget e (JObj (TString type) wp ls b) tr =
     (JObj (TString type) wp ls b, tr @ [Error (''There is no widget with type '' @ type)],
      Inr (new ''Gtk.Label'' [(''label'', JStr (type @ '' doesn't exist''))]))"
  using assms by (simp add: truthy_def no_such_widget_def error_def type_to_string_def)

text \<open>
  Claim C4 at the descriptor \<^verbatim>\<open>{ type: '__proto__' }\<close>: the string is no key of the
  registry, but \<^verbatim>\<open>'__proto__' in widgets\<close> holds, so the engine calls
  \<^verbatim>\<open>widgets['__proto__']\<close>, which is no function. The build throws, nothing is reported
  and no placeholder is returned.
\<close>

theorem inherited_key_throws:
  "''__proto__'' \<notin> set widgets_keys
   \<and> Widget e (JObj (TString ''__proto__'') wp ls b) tr =
       (JObj (TString ''__proto__'') wp ls b, tr, Inl (TypeError ''widgets[type] is not a function''))"
  by (simp add: truthy_def proto_in_widgets widgets_def inherited_member_def)

text \<open>
  Claim C5, as stated, at the empty string: it is falsy, so the build reports an error
  and the text of the label is not the string.
\<close>

theorem empty_string_descriptor:
  "Widget (gtk True) (JStr []) [] =
     (JStr [], [Error ''Widget from null/undefined''],
      Inr (new ''Gtk.Label'' [(''label'', JStr (''error widget from: '' @ [CHR 0x22, CHR 0x22]))]))"
  by (simp add: truthy_def error_def falsy_to_string_def)

text \<open>
  Claim C5, amended. For every string descriptor \<open>s\<close> that is not empty, the build gives
  a label whose text is \<open>s\<close>, reports nothing and touches nothing else.
\<close>

theorem string_descriptor:
  "s \<noteq> [] \<Longrightarrow> Widget e (JStr s) tr = (JStr s, tr, Inr (new ''Gtk.Label'' [(''label'', JStr s)]))"
  by (simp add: truthy_def)

theorem string_descriptor_witness:
  "Widget (gtk True) (JStr ''hi'') [] = (JStr ''hi'', [], Inr (new ''Gtk.Label'' [(''label'', JStr ''hi'')]))"
  using string_descriptor [of "''hi''" "gtk True" "[]"] by simp

section \<open>Properties of the surface configurator\<close>

lemma margin_calls_set_margin:
  "margin_calls (invoke ''GtkLayerShell.set_margin'' [edge_member s, JNum x] w) = margin_calls w @ [(s, x)]"
  by (simp add: margin_calls_def invoke_def edge_member_def)

lemma edges1: "edges (apply_margin (Sides [a]) w) = (Some a, Some a, Some a, Some a)"
  by (simp add: edges_def margin_on_def apply_margin_def margin_table_def margin_calls_set_margin)

lemma edges2: "edges (apply_margin (Sides [a, b]) w) = (Some a, Some b, Some a, Some b)"
  by (simp add: edges_def margin_on_def apply_margin_def margin_table_def margin_calls_set_margin)

lemma edges3: "edges (apply_margin (Sides [a, b, c]) w) = (Some a, Some b, Some c, Some b)"
  by (simp add: edges_def margin_on_def apply_margin_def margin_table_def margin_calls_set_margin)

lemma edges4: "edges (apply_margin (Sides [a, b, c, d]) w) = (Some a, Some b, Some c, Some d)"
  by (simp add: edges_def margin_on_def apply_margin_def margin_table_def margin_calls_set_margin)

lemma margin_scalar_5: "apply_margin (Scalar 5) w = apply_margin (Sides [5]) w"
  by (simp add: apply_margin_def)

lemma margin_other_length: "length xs \<notin> {1, 2, 3, 4} \<Longrightarrow> apply_margin (Sides xs) w = w"
  by (simp add: apply_margin_def margin_table_def)

text \<open>
  Claim C6. The margins (top, right, bottom, left) a surface has after the margin block
  of \<^verbatim>\<open>Window\<close>: \<open>[a]\<close> sets all four edges to \<open>a\<close>; \<open>[a, b]\<close> sets top and bottom to
  \<open>a\<close>, right and left to \<open>b\<close>; \<open>[a, b, c]\<close> sets top to \<open>a\<close>, right and left to \<open>b\<close>,
  bottom to \<open>c\<close>; \<open>[a, b, c, d]\<close> sets top, right, bottom, left in this order; the number
  5 does what \<open>[5]\<close> does; an array of any other length leaves the surface as it is. The
  block cannot fail: it has no failure among its results.
\<close>

theorem margin_expansion:
  "edges (apply_margin (Sides [a]) w) = (Some a, Some a, Some a, Some a)
   \<and> edges (apply_margin (Sides [a, b]) w) = (Some a, Some b, Some a, Some b)
   \<and> edges (apply_margin (Sides [a, b, c]) w) = (Some a, Some b, Some c, Some b)
   \<and> edges (apply_margin (Sides [a, b, c, d]) w) = (Some a, Some b, Some c, Some d)
   \<and> apply_margin (Scalar 5) w = apply_margin (Sides [5]) w
   \<and> (length xs \<notin> {1, 2, 3, 4} \<longrightarrow> apply_margin (Sides xs) w = w)"
  using edges1 edges2 edges3 edges4 margin_scalar_5 margin_other_length by blast

theorem margin_expansion_witness:
  "edges (apply_margin (Sides [1]) (new ''Gtk.Window'' [])) = (Some 1, Some 1, Some 1, Some 1)
   \<and> edges (apply_margin (Sides [1, 2]) (new ''Gtk.Window'' [])) = (Some 1, Some 2, Some 1, Some 2)
   \<and> edges (apply_margin (Sides [1, 2, 3]) (new ''Gtk.Window'' [])) = (Some 1, Some 2, Some 3, Some 2)
   \<and> edges (apply_margin (Sides [1, 2, 3, 4]) (new ''Gtk.Window'' [])) = (Some 1, Some 2, Some 3, Some 4)
   \<and> apply_margin (Sides [1, 2, 3, 4, 5]) (new ''Gtk.Window'' []) = new ''Gtk.Window'' []
   \<and> apply_margin (Sides []) (new ''Gtk.Window'' []) = new ''Gtk.Window'' []"
  using margin_expansion [of 1 "new ''Gtk.Window'' []" 2 3 4 "[1, 2, 3, 4, 5]"]
    margin_expansion [of 1 "new ''Gtk.Window'' []" 2 3 4 "[]"]
  by simp

text \<open>
  Claim C8 at the window \<^verbatim>\<open>{ layer: 'foo' }\<close>. The token is no member of the layer
  enumeration, the lookup gives \<^verbatim>\<open>undefined\<close>, and \<^verbatim>\<open>set_layer\<close> is called with it outside
  any \<^verbatim>\<open>try\<close>. If the binding rejects \<^verbatim>\<open>undefined\<close> the exception leaves \<^verbatim>\<open>Window\<close>; if it
  accepts it the layer is set from \<^verbatim>\<open>undefined\<close> and nothing is reported.
\<close>

theorem unknown_layer_token:
  "Window (gtk True) (no_window\<lparr>win_layer := Some ''foo''\<rparr>) [] =
     (JUndef, [], Inl (TypeError ''GtkLayerShell.set_layer''))
   \<and> Window (gtk False) (no_window\<lparr>win_layer := Some ''foo''\<rparr>) [] =
     (JUndef, [],
      Inr (Native ''Gtk.Window'' [(''name'', JStr ''gtk-layer-shell'')]
        [(''set_default_size'', [JNum 1, JNum 1]),
         (''GtkLayerShell.init_for_window'', []),
         (''GtkLayerShell.set_namespace'', [JStr ''gtk-layer-shell'']),
         (''setStyle='', [JClosure ''setStyle'']),
         (''toggleClassName='', [JClosure ''toggleClassName'']),
         (''GtkLayerShell.set_layer'', [JUndef]),
         (''present'', [])]))"
  by (simp add: Window_def configure_surface_def apply_anchor_def apply_monitor_def window_child_def
      show_window_def Let_def no_window_def or_default_def typecheck_def kind_of_def opt_js_def
      restcheck_def dflt_def apply_margin_def margin_table_def enum_lookup_def gtk_def gtk_members_def gtk_enums_def
      toUpperCase_def rejected_def truthy_def add_classes_def new_def invoke_def assign_def)

text \<open>The sibling path: an unknown \<^verbatim>\<open>halign\<close> or \<^verbatim>\<open>valign\<close> token is inside a \<^verbatim>\<open>try\<close>. When
  the binding rejects \<^verbatim>\<open>undefined\<close> a warning is reported and the attribute is left alone.\<close>

lemma unknown_align_token:
  assumes "enum_member e ''Align'' (toUpperCase a) = None"
  shows "try_assign_enum e f ''Align'' (JStr a) msg w tr =
     (if rejects_undefined e then (w, tr @ [Warning msg]) else (assign f JUndef w, tr))"
  using assms by (simp add: try_assign_enum_def enum_lookup_def rejected_def warning_def)

section \<open>Descriptors after a build\<close>

text \<open>The first component of the result of \<^verbatim>\<open>Widget\<close> is the descriptor as the call leaves it.
  The constructors of the registry read the descriptor; the one write in the sources is in
  \<^verbatim>\<open>Overlay\<close>, which deletes \<^verbatim>\<open>measure\<close> and \<^verbatim>\<open>clip\<close> from every descriptor of its
  \<^verbatim>\<open>overlays\<close> list.\<close>

lemma put_get: "put k (get b k) b = b"
  by (induction b) (auto simp: get_def)

lemma no_hints_get: "\<forall>kv \<in> set b. no_hints (snd kv) \<Longrightarrow> no_hints (get b k)"
  by (force simp: get_def split: option.splits dest!: map_of_SomeD)

lemma no_hints_items:
  "\<forall>kv \<in> set b. no_hints (snd kv) \<Longrightarrow> x \<in> set (arr_items (dflt (JArr []) (get b k))) \<Longrightarrow> no_hints x"
  using no_hints_get [of b k]
  by (cases "get b k") (auto simp: dflt_def arr_items_def)

lemma for_each_id:
  "(\<And>x c t. x \<in> set xs \<Longrightarrow> fst (f x c t) = x) \<Longrightarrow> fst (for_each f xs c t) = xs"
proof (induction xs arbitrary: c t)
  case Nil
  then show ?case by simp
next
  case (Cons x xs)
  obtain x' tr' r where fx: "f x c t = (x', tr', r)" by (cases "f x c t") auto
  have x': "x' = x" using Cons.prems [of x c t] fx by simp
  show ?case
  proof (cases r)
    case (Inl err)
    then show ?thesis using fx x' by simp
  next
    case (Inr c')
    obtain xs' tr'' r' where fe: "for_each f xs c' tr' = (xs', tr'', r')"
      by (cases "for_each f xs c' tr'") auto
    have "xs' = xs" using Cons.IH [of c' tr'] Cons.prems fe by simp
    then show ?thesis using fx x' Inr fe by simp
  qed
qed

lemma delete_key_no_hints: "no_hints x \<Longrightarrow> k = ''measure'' \<or> k = ''clip'' \<Longrightarrow> delete_key k x = x"
proof (cases x)
  case (JObj t wp ls b)
  assume "no_hints x" "k = ''measure'' \<or> k = ''clip''"
  with JObj have "k \<notin> fst ` set b" by force
  then have "filter (\<lambda>(k', v'). k' \<noteq> k) b = b"
    by (induction b) force+
  then show ?thesis using JObj by (simp add: delete_key_def)
qed (simp_all add: delete_key_def)

lemma set_child_if_id:
  assumes "\<And>w t. size w \<le> size_list (size_prod (\<lambda>x. 0) size) b \<Longrightarrow> no_hints w \<Longrightarrow> fst (W w t) = w"
    and "\<forall>kv \<in> set b. no_hints (snd kv)"
  shows "fst (set_child_if W b c tr) = b"
proof -
  have "fst (W (get b ''child'') tr) = get b ''child''"
    by (rule assms(1)) (simp_all add: size_get_le no_hints_get assms(2))
  then show ?thesis
    by (simp add: set_child_if_def Let_def put_get split_beta sum.case_eq_if)
qed

lemma append_item_id:
  assumes "fst (W x t) = x"
  shows "fst (append_item W x c t) = x"
  using assms by (simp add: append_item_def split_beta sum.case_eq_if)

lemma put_array_id: "put_array k (arr_items (dflt (JArr []) (get b k))) b = b"
  using put_get [of k b]
  by (cases "get b k") (auto simp: put_array_def is_array_def dflt_def arr_items_def)

lemma Box_id:
  assumes "\<And>w t. size w \<le> size_list (size_prod (\<lambda>x. 0) size) b \<Longrightarrow> no_hints w \<Longrightarrow> fst (W w t) = w"
    and "\<forall>kv \<in> set b. no_hints (snd kv)"
  shows "fst (Box W e ty b tr) = b"
proof -
  let ?xs = "arr_items (dflt (JArr []) (get b ''children''))"
  have fe: "fst (for_each (append_item W) ?xs c t) = ?xs" for c t
    by (rule for_each_id, rule append_item_id, rule assms(1))
       (simp_all add: size_items_get no_hints_items [OF assms(2)])
  show ?thesis
    using fe put_array_id [of "''children''" b]
    by (simp add: Box_def Let_def split_beta sum.case_eq_if)
qed

lemma CenterBox_id:
  assumes "\<And>w t. size w \<le> size_list (size_prod (\<lambda>x. 0) size) b \<Longrightarrow> no_hints w \<Longrightarrow> fst (W w t) = w"
    and "\<forall>kv \<in> set b. no_hints (snd kv)"
  shows "fst (CenterBox W e ty b tr) = b"
proof -
  have "fst (W (get b k) t) = get b k" for k t
    by (rule assms(1)) (simp_all add: size_get_le no_hints_get assms(2))
  then show ?thesis
    by (simp add: CenterBox_def Let_def put_get split_beta sum.case_eq_if)
qed

lemma Button_id:
  assumes "\<And>w t. size w \<le> size_list (size_prod (\<lambda>x. 0) size) b \<Longrightarrow> no_hints w \<Longrightarrow> fst (W w t) = w"
    and "\<forall>kv \<in> set b. no_hints (snd kv)"
  shows "fst (Button W e ty b tr) = b"
proof -
  have "fst (set_child_if W b c t) = b" for c t
    by (rule set_child_if_id) (use assms in auto)
  then show ?thesis
    by (simp add: Button_def Let_def split_beta sum.case_eq_if)
qed

lemma Scrollable_id:
  assumes "\<And>w t. size w \<le> size_list (size_prod (\<lambda>x. 0) size) b \<Longrightarrow> no_hints w \<Longrightarrow> fst (W w t) = w"
    and "\<forall>kv \<in> set b. no_hints (snd kv)"
  shows "fst (Scrollable W e ty b tr) = b"
proof -
  have "fst (set_child_if W b c t) = b" for c t
    by (rule set_child_if_id) (use assms in auto)
  then show ?thesis
    by (simp add: Scrollable_def Let_def split_beta sum.case_eq_if split: jsval.splits)
qed

lemma Revealer_id:
  assumes "\<And>w t. size w \<le> size_list (size_prod (\<lambda>x. 0) size) b \<Longrightarrow> no_hints w \<Longrightarrow> fst (W w t) = w"
    and "\<forall>kv \<in> set b. no_hints (snd kv)"
  shows "fst (Revealer W e ty b tr) = b"
proof -
  have "fst (set_child_if W b c t) = b" for c t
    by (rule set_child_if_id) (use assms in auto)
  then show ?thesis
    by (simp add: Revealer_def Let_def split_beta sum.case_eq_if)
qed

lemma no_hints_js_iter: "no_hints x \<Longrightarrow> js_iter x = Some xs \<Longrightarrow> no_hints (nth_or_undef xs i)"
  by (cases x) (auto simp: js_iter_def nth_or_undef_def)

lemma put_item_id: "js_iter x = Some xs \<Longrightarrow> put_item x i (nth_or_undef xs i) = x"
  by (cases x) (auto simp: js_iter_def put_item_def nth_or_undef_def list_update_beyond)

lemma stack_item_id:
  assumes "\<And>w t. size w \<le> size x \<Longrightarrow> no_hints w \<Longrightarrow> fst (W w t) = w" and "no_hints x"
  shows "fst (stack_item W x c tr) = x"
proof (cases "js_iter x")
  case None
  then show ?thesis by (simp add: stack_item_def)
next
  case (Some xs)
  have "fst (W (nth_or_undef xs 1) tr) = nth_or_undef xs 1"
    by (rule assms(1)) (simp_all add: size_js_iter_le [OF Some] no_hints_js_iter [OF assms(2) Some])
  then show ?thesis using Some put_item_id [OF Some, of 1]
    by (simp add: stack_item_def Let_def split_beta sum.case_eq_if)
qed

lemma Stack_id:
  assumes "\<And>w t. size w \<le> size_list (size_prod (\<lambda>x. 0) size) b \<Longrightarrow> no_hints w \<Longrightarrow> fst (W w t) = w"
    and "\<forall>kv \<in> set b. no_hints (snd kv)"
  shows "fst (Stack W e ty b tr) = b"
proof -
  let ?xs = "arr_items (dflt (JArr []) (get b ''items''))"
  have fe: "fst (for_each (stack_item W) ?xs c t) = ?xs" for c t
  proof (rule for_each_id)
    fix x c t assume x: "x \<in> set ?xs"
    show "fst (stack_item W x c t) = x"
    proof (rule stack_item_id)
      show "no_hints x" using no_hints_items [OF assms(2) x] .
      fix w t assume "size w \<le> size x" "no_hints w"
      then show "fst (W w t) = w" using assms(1) size_items_get [OF x] by simp
    qed
  qed
  show ?thesis
    using fe put_array_id [of "''items''" b]
    by (simp add: Stack_def Let_def split_beta sum.case_eq_if)
qed

lemma overlay_item_id:
  assumes "\<And>w t. size w \<le> size x \<Longrightarrow> no_hints w \<Longrightarrow> fst (W w t) = w" and "no_hints x"
  shows "fst (overlay_item W x c tr) = x"
proof -
  have d: "delete_key ''clip'' (delete_key ''measure'' x) = x"
    using assms(2) by (simp add: delete_key_no_hints)
  have "fst (W x tr) = x" by (rule assms(1)) (simp_all add: assms(2))
  then show ?thesis
    by (simp add: overlay_item_def Let_def d split_beta sum.case_eq_if)
qed

lemma Overlay_id:
  assumes "\<And>w t. size w \<le> size_list (size_prod (\<lambda>x. 0) size) b \<Longrightarrow> no_hints w \<Longrightarrow> fst (W w t) = w"
    and "\<forall>kv \<in> set b. no_hints (snd kv)"
  shows "fst (Overlay W e ty b tr) = b"
proof -
  let ?xs = "arr_items (dflt (JArr []) (get b ''overlays''))"
  have fe: "fst (for_each (overlay_item W) ?xs c t) = ?xs" for c t
  proof (rule for_each_id)
    fix x c t assume x: "x \<in> set ?xs"
    show "fst (overlay_item W x c t) = x"
    proof (rule overlay_item_id)
      show "no_hints x" using no_hints_items [OF assms(2) x] .
      fix w t assume "size w \<le> size x" "no_hints w"
      then show "fst (W w t) = w" using assms(1) size_items_get [OF x] by simp
    qed
  qed
  have sc: "fst (set_child_if W b c t) = b" for c t
    by (rule set_child_if_id) (use assms in auto)
  show ?thesis
    using fe sc put_array_id [of "''overlays''" b]
    by (simp add: Overlay_def Let_def split_beta sum.case_eq_if)
qed

lemma widgets_id:
  assumes "\<And>w t. size w \<le> size_list (size_prod (\<lambda>x. 0) size) b \<Longrightarrow> no_hints w \<Longrightarrow> fst (W w t) = w"
    and "\<forall>kv \<in> set b. no_hints (snd kv)"
  shows "fst (widgets W e ty b tr) = b"
proof -
  have "fst (Box W e k b tr) = b" for k by (rule Box_id) (use assms in auto)
  moreover have "fst (Button W e k b tr) = b" for k by (rule Button_id) (use assms in auto)
  moreover have "fst (CenterBox W e k b tr) = b" for k by (rule CenterBox_id) (use assms in auto)
  moreover have "fst (Overlay W e k b tr) = b" for k by (rule Overlay_id) (use assms in auto)
  moreover have "fst (Revealer W e k b tr) = b" for k by (rule Revealer_id) (use assms in auto)
  moreover have "fst (Scrollable W e k b tr) = b" for k by (rule Scrollable_id) (use assms in auto)
  moreover have "fst (Stack W e k b tr) = b" for k by (rule Stack_id) (use assms in auto)
  ultimately show ?thesis
    by (simp add: widgets_def leaf_def)
qed


lemma fst_Widget_label: "fst (Widget e (JObj (TString ''label'') wp ls b) tr) = JObj (TString ''label'') wp ls b"
  by (simp add: truthy_def in_widgets_def widgets_keys_def widgets_def leaf_def split_beta sum.case_eq_if)

lemma isr_Widget_label: "\<not> isl (snd (snd (Widget e (JObj (TString ''label'') wp ls b) tr)))"
  by (simp add: truthy_def in_widgets_def widgets_keys_def widgets_def leaf_def split_beta sum.case_eq_if
      Label_def Let_def)

lemma fst_Widget_overlay:
  "fst (Widget e (JObj (TString ''overlay'') wp ls b) tr) =
     JObj (TString ''overlay'') wp ls (fst (Overlay (Widget e) e ''overlay'' b tr))"
  by (simp add: truthy_def in_widgets_def widgets_keys_def widgets_def split_beta sum.case_eq_if)


text \<open>
  Claim C9, amended. For every descriptor that nowhere carries a \<^verbatim>\<open>measure\<close> or a \<^verbatim>\<open>clip\<close>
  key (neither itself nor any descriptor nested in it, in particular those of a container's
  \<^verbatim>\<open>children\<close>, \<^verbatim>\<open>items\<close> or \<^verbatim>\<open>overlays\<close> list), the descriptor after the build is the
  descriptor before it, whatever the build reports and whether or not it raises.
\<close>

theorem descriptor_unchanged: "no_hints d \<Longrightarrow> fst (Widget e d tr) = d"
proof (induction e d tr rule: Widget.induct)
  case (1 e params tr)
  show ?case
  proof (cases params)
    case (JObj t wp ls b)
    show ?thesis
    proof (cases t)
      case (TString type)
      show ?thesis
      proof (cases "in_widgets type")
        case True
        have "fst (widgets (Widget e) e type b tr) = b"
        proof (rule widgets_id)
          show "\<forall>kv \<in> set b. no_hints (snd kv)" using "1.prems" JObj by simp
          fix w tr' assume "size w \<le> size_list (size_prod (\<lambda>x. 0) size) b" "no_hints w"
          then show "fst (Widget e w tr') = w"
            using "1.IH" JObj TString True by (auto simp: truthy_def)
        qed
        then show ?thesis using JObj TString True
          by (simp add: truthy_def split_beta sum.case_eq_if)
      next
        case False
        then show ?thesis using JObj TString by (simp add: truthy_def no_such_widget_def)
      qed
    qed (use JObj in \<open>simp_all add: truthy_def no_such_widget_def split_beta\<close>)
  qed (simp_all add: no_such_widget_def)
qed

theorem descriptor_unchanged_witness:
  "no_hints (JObj (TString ''box'') no_wprops no_listeners [(''children'', JArr [sample_label, JStr ''x''])])
   \<and> fst (Widget (gtk True)
        (JObj (TString ''box'') no_wprops no_listeners [(''children'', JArr [sample_label, JStr ''x''])]) [])
     = JObj (TString ''box'') no_wprops no_listeners [(''children'', JArr [sample_label, JStr ''x''])]"
  using descriptor_unchanged
    [of "JObj (TString ''box'') no_wprops no_listeners [(''children'', JArr [sample_label, JStr ''x''])]"
        "gtk True" "[]"]
  by (simp add: sample_label_def)

text \<open>
  Claim C9 as stated does not hold: \<^verbatim>\<open>Overlay\<close> runs \<^verbatim>\<open>delete w.measure; delete w.clip\<close> on
  each descriptor of its \<^verbatim>\<open>overlays\<close> list, which is the caller's object. After building an
  overlay whose one overlay descriptor is a label with \<^verbatim>\<open>clip: true\<close>, that descriptor has no
  \<^verbatim>\<open>clip\<close> key.
\<close>

theorem overlay_deletes_clip:
  "fst (Widget (gtk True) sample_overlay []) =
     JObj (TString ''overlay'') no_wprops no_listeners
       [(''overlays'', JArr [JObj (TString ''label'') no_wprops no_listeners [(''label'', JStr ''x'')]])]
   \<and> fst (Widget (gtk True) sample_overlay []) \<noteq> sample_overlay"
proof -
  have "fst (Widget (gtk True) sample_overlay []) =
     JObj (TString ''overlay'') no_wprops no_listeners
       [(''overlays'', JArr [JObj (TString ''label'') no_wprops no_listeners [(''label'', JStr ''x'')]])]"
    unfolding sample_overlay_def fst_Widget_overlay
    by (simp add: truthy_def Overlay_def Let_def
        set_child_if_def get_def dflt_def is_array_def arr_items_def overlay_item_def member_def
        delete_key_def put_array_def split_beta sum.case_eq_if fst_Widget_label isr_Widget_label
        del: Widget.simps)
  then show ?thesis by (simp add: sample_overlay_def)
qed

section \<open>The dialog flag of a surface\<close>

text \<open>Everything \<^verbatim>\<open>Window\<close> does to the surface after constructing it commutes with forgetting
  the class of the surface: no step looks at the class.\<close>

lemma without_class_invoke [simp]: "without_class (invoke m a w) = invoke m a (without_class w)"
  by (simp add: without_class_def invoke_def)

lemma without_class_assign [simp]: "without_class (assign f v w) = assign f v (without_class w)"
  by (simp add: assign_def)

lemma without_class_new [simp]: "without_class (new k i) = new [] i"
  by (simp add: without_class_def new_def)

lemma without_class_setStyle [simp]: "without_class (setStyle w css) = setStyle (without_class w) css"
  by (simp add: setStyle_def Let_def)

lemma without_class_foldl:
  assumes "\<And>w x. without_class (f w x) = f (without_class w) x"
  shows "without_class (foldl f w xs) = foldl f (without_class w) xs"
  by (induction xs arbitrary: w) (simp_all add: assms)

lemma without_class_add_classes [simp]: "without_class (add_classes c w) = add_classes c (without_class w)"
  unfolding add_classes_def by (rule without_class_foldl) simp

lemma without_class_apply_margin [simp]: "without_class (apply_margin m w) = apply_margin m (without_class w)"
  unfolding apply_margin_def Let_def
  by (simp add: without_class_foldl split_beta)

lemma anchor_fold:
  "foldl (set_anchor_side e) (w, tr) xs =
     (Native (kind w) (init w) (calls (fst (foldl (set_anchor_side e) (without_class w, tr) xs))),
      anchor_trace e xs tr)"
proof (induction xs arbitrary: w tr rule: rev_induct)
  case Nil
  then show ?case by (simp add: anchor_trace_def without_class_def)
next
  case (snoc x xs)
  show ?case
    apply (simp add: anchor_trace_def)
    apply (subst snoc.IH)
    apply (subst (2) snoc.IH)
    apply (subst (3) snoc.IH)
    apply (simp add: set_anchor_side_def Let_def anchor_trace_def invoke_def without_class_def new_def)
    done
qed

lemma without_class_idem [simp]: "without_class (without_class w) = without_class w"
  by (simp add: without_class_def)

lemma anchor_snd [simp]: "snd (foldl (set_anchor_side e) (w, tr) xs) = anchor_trace e xs tr"
  by (subst anchor_fold) simp

lemma anchor_fst [simp]:
  "without_class (fst (foldl (set_anchor_side e) (w, tr) xs)) = fst (foldl (set_anchor_side e) (without_class w, tr) xs)"
proof -
  have "fst (foldl (set_anchor_side e) (without_class w, tr) xs)
      = Native [] (init w) (calls (fst (foldl (set_anchor_side e) (without_class w, tr) xs)))"
    by (subst anchor_fold) (simp add: without_class_def)
  moreover have "without_class (fst (foldl (set_anchor_side e) (w, tr) xs))
      = Native [] (init w) (calls (fst (foldl (set_anchor_side e) (without_class w, tr) xs)))"
    by (subst anchor_fold) (simp add: without_class_def)
  ultimately show ?thesis by simp
qed

lemma apply_anchor_without_class:
  "without_class (fst (apply_anchor e a (w, tr))) = fst (apply_anchor e a (without_class w, tr))"
  "snd (apply_anchor e a (w, tr)) = snd (apply_anchor e a (without_class w, tr))"
  by (simp_all add: apply_anchor_def)

lemma apply_monitor_without_class:
  "without_class (fst (apply_monitor e m (w, tr))) = fst (apply_monitor e m (without_class w, tr))"
  "snd (apply_monitor e m (w, tr)) = snd (apply_monitor e m (without_class w, tr))"
  by (simp_all add: apply_monitor_def split: option.splits)

lemma window_child_without_class:
  "result_without_class (window_child e c orig w tr) = result_without_class (window_child e c orig (without_class w) tr)"
  by (simp add: window_child_def result_without_class_def split_beta sum.case_eq_if)

lemma show_window_without_class:
  "without_class (fst (show_window p w tr)) = fst (show_window p (without_class w) tr)"
  "map effect_without_class (snd (show_window p w tr)) = map effect_without_class (snd (show_window p (without_class w) tr))"
  by (simp_all add: show_window_def Let_def effect_without_class_def split: option.splits)

lemma without_class_eq_invoke: "without_class w = without_class w' \<Longrightarrow> without_class (invoke m a w) = without_class (invoke m a w')"
  by simp

lemma apply_anchor_same:
  assumes "without_class w = without_class w'"
  shows "without_class (fst (apply_anchor e a (w, tr))) = without_class (fst (apply_anchor e a (w', tr)))"
    and "snd (apply_anchor e a (w, tr)) = snd (apply_anchor e a (w', tr))"
  using apply_anchor_without_class [of e a w tr] apply_anchor_without_class [of e a w' tr] assms by simp_all

lemma apply_monitor_same:
  assumes "without_class w = without_class w'"
  shows "without_class (fst (apply_monitor e m (w, tr))) = without_class (fst (apply_monitor e m (w', tr)))"
    and "snd (apply_monitor e m (w, tr)) = snd (apply_monitor e m (w', tr))"
  using apply_monitor_without_class [of e m w tr] apply_monitor_without_class [of e m w' tr] assms by simp_all

lemma window_child_same:
  assumes "without_class w = without_class w'"
  shows "fst (window_child e c orig w tr) = fst (window_child e c orig w' tr)"
    and "fst (snd (window_child e c orig w tr)) = fst (snd (window_child e c orig w' tr))"
    and "map_sum id without_class (snd (snd (window_child e c orig w tr)))
       = map_sum id without_class (snd (snd (window_child e c orig w' tr)))"
  using assms by (simp_all add: window_child_def split_beta sum.case_eq_if)

lemma show_window_same:
  assumes "without_class w = without_class w'"
  shows "without_class (fst (show_window p w tr)) = without_class (fst (show_window p w' tr))"
    and "map effect_without_class (snd (show_window p w tr)) = map effect_without_class (snd (show_window p w' tr))"
  using show_window_without_class [of p w tr] show_window_without_class [of p w' tr] assms by simp_all

lemma configure_surface_same:
  assumes "without_class w = without_class w'"
  shows "result_without_class (configure_surface e p w tr) = result_without_class (configure_surface e p w' tr)"
proof -
  let ?name = "or_default ''gtk-layer-shell'' (win_name p)"
  let ?h = "\<lambda>w. assign ''toggleClassName'' (JClosure ''toggleClassName'')
              (assign ''setStyle'' (JClosure ''setStyle'')
                (invoke ''GtkLayerShell.set_namespace'' [JStr ?name]
                  (invoke ''GtkLayerShell.init_for_window'' []
                    (invoke ''set_default_size'' [JNum 1, JNum 1] w))))"
  let ?A = "\<lambda>w. apply_anchor e (or_default [] (win_anchor p)) (?h w, tr)"
  let ?m = "\<lambda>w. apply_margin (or_default (Sides []) (win_margin p)) (fst (?A w))"
  let ?lay = "enum_lookup e ''Layer'' (toUpperCase (or_default ''top'' (win_layer p)))"
  let ?x = "\<lambda>w. (if or_default False (win_exclusive p)
                  then invoke ''GtkLayerShell.auto_exclusive_zone_enable'' []
                         (invoke ''GtkLayerShell.set_layer'' [?lay] (?m w))
                  else invoke ''GtkLayerShell.set_layer'' [?lay] (?m w))"
  let ?M = "\<lambda>w. apply_monitor e (win_monitor p) (?x w, snd (?A w))"
  let ?s = "\<lambda>w. (if or_default [] (win_style p) \<noteq> []
                  then setStyle (add_classes (or_default [] (win_className p)) (fst (?M w)))
                         (or_default [] (win_style p))
                  else add_classes (or_default [] (win_className p)) (fst (?M w)))"
  let ?C = "\<lambda>w. window_child e (dflt JNull (win_child p)) (win_child p) (?s w) (snd (?M w))"
  have conf: "configure_surface e p w tr =
      (if rejected e ?lay then (win_child p, snd (?A w), Inl (TypeError ''GtkLayerShell.set_layer''))
       else (case ?C w of
               (c', t', Inl err) \<Rightarrow> (c', t', Inl err)
             | (c', t', Inr win) \<Rightarrow>
                 (case show_window p win t' of (win, t'') \<Rightarrow> (c', t'', Inr win))))" for w
    by (simp add: configure_surface_def Let_def split_beta)
  have h: "without_class (?h w) = without_class (?h w')" using assms by simp
  have A1: "without_class (fst (?A w)) = without_class (fst (?A w'))" and A2: "snd (?A w) = snd (?A w')"
    using apply_anchor_same [OF h] by simp_all
  have m: "without_class (?m w) = without_class (?m w')" using A1 by simp
  have x: "without_class (?x w) = without_class (?x w')" using m by simp
  have M1: "without_class (fst (?M w)) = without_class (fst (?M w'))" and M2: "snd (?M w) = snd (?M w')"
    using apply_monitor_same [OF x] A2 by simp_all
  have s: "without_class (?s w) = without_class (?s w')" using M1 by simp
  have C1: "fst (?C w) = fst (?C w')" and C2: "fst (snd (?C w)) = fst (snd (?C w'))"
    and C3: "map_sum id without_class (snd (snd (?C w))) = map_sum id without_class (snd (snd (?C w')))"
    using window_child_same [OF s] M2 by simp_all
  show ?thesis
  proof (cases "rejected e ?lay")
    case True
    then show ?thesis by (simp add: conf A2 result_without_class_def)
  next
    case False
    obtain c t r where Cw: "?C w = (c, t, r)" by (cases "?C w") auto
    obtain r' where Cw': "?C w' = (c, t, r')" using C1 C2 Cw by (cases "?C w'") auto
    have rr: "map_sum id without_class r = map_sum id without_class r'" using C3 Cw Cw' by simp
    show ?thesis
    proof (cases r)
      case (Inl err)
      then have "r' = Inl err" using rr by (cases r') auto
      then show ?thesis using False Inl Cw Cw' by (simp add: conf result_without_class_def)
    next
      case (Inr win)
      then obtain win' where r': "r' = Inr win'" and u: "without_class win = without_class win'"
        using rr by (cases r') auto
      show ?thesis
        using False Inr r' Cw Cw' show_window_same [OF u, of p t]
        by (simp add: conf result_without_class_def split_beta)
    qed
  qed
qed

text \<open>No step changes the class of the surface.\<close>

lemma kind_assign [simp]: "kind (assign f v w) = kind w"
  by (simp add: assign_def)

lemma kind_setStyle [simp]: "kind (setStyle w css) = kind w"
  by (simp add: setStyle_def Let_def)

lemma kind_foldl:
  assumes "\<And>w x. kind (f w x) = kind w"
  shows "kind (foldl f w xs) = kind w"
  by (induction xs arbitrary: w) (simp_all add: assms)

lemma kind_add_classes [simp]: "kind (add_classes c w) = kind w"
  unfolding add_classes_def by (rule kind_foldl) simp

lemma kind_apply_margin [simp]: "kind (apply_margin m w) = kind w"
  unfolding apply_margin_def Let_def
  by (simp add: kind_foldl split_beta)

lemma kind_apply_anchor [simp]: "kind (fst (apply_anchor e a (w, tr))) = kind w"
  unfolding apply_anchor_def by (simp, subst anchor_fold, simp)

lemma kind_apply_monitor [simp]: "kind (fst (apply_monitor e m (w, tr))) = kind w"
  by (simp add: apply_monitor_def split: option.splits)

lemma kind_show_window [simp]: "kind (fst (show_window p w tr)) = kind w"
  by (simp add: show_window_def Let_def)

lemma kind_window_child:
  "snd (snd (window_child e c orig w tr)) = Inr w' \<Longrightarrow> kind w' = kind w"
  by (auto simp: window_child_def split_beta sum.case_eq_if split: if_splits)

lemma kind_configure_surface:
  assumes "snd (snd (configure_surface e p w tr)) = Inr w'"
  shows "kind w' = kind w"
proof -
  let ?name = "or_default ''gtk-layer-shell'' (win_name p)"
  let ?h = "assign ''toggleClassName'' (JClosure ''toggleClassName'')
              (assign ''setStyle'' (JClosure ''setStyle'')
                (invoke ''GtkLayerShell.set_namespace'' [JStr ?name]
                  (invoke ''GtkLayerShell.init_for_window'' []
                    (invoke ''set_default_size'' [JNum 1, JNum 1] w))))"
  let ?A = "apply_anchor e (or_default [] (win_anchor p)) (?h, tr)"
  let ?m = "apply_margin (or_default (Sides []) (win_margin p)) (fst ?A)"
  let ?lay = "enum_lookup e ''Layer'' (toUpperCase (or_default ''top'' (win_layer p)))"
  let ?x = "(if or_default False (win_exclusive p)
             then invoke ''GtkLayerShell.auto_exclusive_zone_enable'' []
                    (invoke ''GtkLayerShell.set_layer'' [?lay] ?m)
             else invoke ''GtkLayerShell.set_layer'' [?lay] ?m)"
  let ?M = "apply_monitor e (win_monitor p) (?x, snd ?A)"
  let ?s = "(if or_default [] (win_style p) \<noteq> []
             then setStyle (add_classes (or_default [] (win_className p)) (fst ?M))
                    (or_default [] (win_style p))
             else add_classes (or_default [] (win_className p)) (fst ?M))"
  let ?C = "window_child e (dflt JNull (win_child p)) (win_child p) ?s (snd ?M)"
  have conf: "configure_surface e p w tr =
      (if rejected e ?lay then (win_child p, snd ?A, Inl (TypeError ''GtkLayerShell.set_layer''))
       else (case ?C of
               (c', t', Inl err) \<Rightarrow> (c', t', Inl err)
             | (c', t', Inr win) \<Rightarrow>
                 (case show_window p win t' of (win, t'') \<Rightarrow> (c', t'', Inr win))))"
    by (simp add: configure_surface_def Let_def split_beta)
  have s: "kind ?s = kind w" by simp
  show ?thesis
  proof (cases "rejected e ?lay")
    case True
    then show ?thesis using assms by (simp add: conf)
  next
    case False
    obtain c t r where C: "?C = (c, t, r)" by (cases ?C) auto
    show ?thesis
    proof (cases r)
      case (Inl err)
      then show ?thesis using assms False C by (simp add: conf)
    next
      case (Inr win)
      then have "snd (snd ?C) = Inr win" using C by simp
      then have "kind win = kind ?s" by (rule kind_window_child)
      moreover have "w' = fst (show_window p win t)"
        using assms False C Inr by (simp add: conf split_beta)
      ultimately show ?thesis using s by simp
    qed
  qed
qed

lemma show_window_dialog: "show_window (p\<lparr>win_dialog := d\<rparr>) = show_window p"
  by (rule ext)+ (simp add: show_window_def)

lemma configure_surface_dialog:
  "configure_surface e (p\<lparr>win_dialog := d\<rparr>) w tr = configure_surface e p w tr"
  by (simp add: configure_surface_def Let_def split_beta sum.case_eq_if show_window_dialog
      cong: if_cong)

lemma Window_dialog:
  "Window e (p\<lparr>win_dialog := d\<rparr>) tr0 =
     configure_surface e p
       (new (if or_default False d then ''Gtk.Dialog'' else ''Gtk.Window'')
          [(''name'', JStr (or_default ''gtk-layer-shell'' (win_name p)))])
       (restcheck (win_rest p) (''window: '' @ or_default ''gtk-layer-shell'' (win_name p))
         (typecheck ''monitor'' (opt_js (\<lambda>n. JNum (real n)) (win_monitor p)) [''number'', ''undefined'']
            ''window''
         (typecheck ''className'' (JStr (or_default [] (win_className p))) [''string''] ''window''
         (typecheck ''focusable'' (JBool (or_default False (win_focusable p))) [''boolean''] ''window''
         (typecheck ''exclusive'' (JBool (or_default False (win_exclusive p))) [''boolean''] ''window''
         (typecheck ''layer'' (JStr (or_default ''top'' (win_layer p))) [''string''] ''window''
         (typecheck ''margin''
            (case or_default (Sides []) (win_margin p) of
               Scalar x \<Rightarrow> JNum x | Sides xs \<Rightarrow> JArr (map JNum xs))
            [''number'', ''array''] ''window''
         (typecheck ''anchor'' (JStr (or_default [] (win_anchor p))) [''string''] ''window''
         (typecheck ''name'' (JStr (or_default ''gtk-layer-shell'' (win_name p))) [''string'']
            ''window'' tr0)))))))))"
  unfolding Window_def Let_def configure_surface_dialog by simp

text \<open>
  Claim C10. For every window descriptor \<open>p\<close> and every two values \<open>d\<close>, \<open>d'\<close> of its
  \<^verbatim>\<open>dialog\<close> flag, \<^verbatim>\<open>Window\<close> gives the same result up to the class of the surface: the same
  descriptor of the child, the same diagnostics, the same failure if any, the same calls on
  the surface in the same order (anchor, margin, layer, monitor, classes, style, child,
  keyboard mode, visibility) and the same call of \<^verbatim>\<open>setup\<close>. The surface that \<^verbatim>\<open>Window\<close>
  returns is a \<^verbatim>\<open>Gtk.Dialog\<close> when the flag is true and a \<^verbatim>\<open>Gtk.Window\<close> otherwise (the flag
  absent counts as false).
\<close>

theorem dialog_flag:
  "result_without_class (Window e (p\<lparr>win_dialog := d\<rparr>) tr)
     = result_without_class (Window e (p\<lparr>win_dialog := d'\<rparr>) tr)
   \<and> (\<forall>w. snd (snd (Window e p tr)) = Inr w \<longrightarrow>
          kind w = (if or_default False (win_dialog p) then ''Gtk.Dialog'' else ''Gtk.Window''))"
proof (intro conjI allI impI)
  show "result_without_class (Window e (p\<lparr>win_dialog := d\<rparr>) tr)
     = result_without_class (Window e (p\<lparr>win_dialog := d'\<rparr>) tr)"
    unfolding Window_dialog
    by (rule configure_surface_same) (simp add: without_class_def new_def)
next
  fix w assume "snd (snd (Window e p tr)) = Inr w"
  then have "snd (snd (Window e (p\<lparr>win_dialog := win_dialog p\<rparr>) tr)) = Inr w" by simp
  then show "kind w = (if or_default False (win_dialog p) then ''Gtk.Dialog'' else ''Gtk.Window'')"
    unfolding Window_dialog
    by (simp add: kind_configure_surface new_def)
qed

theorem dialog_flag_witness:
  "result_without_class (Window (gtk True) (no_window\<lparr>win_dialog := Some True\<rparr>) [])
     = result_without_class (Window (gtk True) (no_window\<lparr>win_dialog := Some False\<rparr>) [])
   \<and> (\<exists>w. snd (snd (Window (gtk True) (no_window\<lparr>win_dialog := Some True\<rparr>) [])) = Inr w
          \<and> kind w = ''Gtk.Dialog'')"
proof -
  have r: "\<exists>w. snd (snd (Window (gtk True) (no_window\<lparr>win_dialog := Some True\<rparr>) [])) = Inr w"
    by (simp add: Window_def configure_surface_def apply_anchor_def apply_monitor_def window_child_def
      show_window_def Let_def no_window_def or_default_def typecheck_def kind_of_def opt_js_def
      restcheck_def dflt_def apply_margin_def margin_table_def enum_lookup_def gtk_def gtk_members_def gtk_enums_def
      toUpperCase_def rejected_def truthy_def add_classes_def new_def invoke_def assign_def)
  show ?thesis
    using r
      dialog_flag [where e = "gtk True" and p = no_window and d = "Some True" and d' = "Some False"
        and tr = "[]"]
      dialog_flag [where e = "gtk True" and p = "no_window\<lparr>win_dialog := Some True\<rparr>"
        and d = "Some True" and d' = "Some True" and tr = "[]"]
    by (auto simp: or_default_def)
qed

end
